theory Spec2Isabelle
  imports Main "HOL-Library.Multiset"
begin

section \<open>The Linear to Discord relay (main.go)\<close>

text \<open>
  The repository is one Go program: an HTTP service that turns Linear webhook events
  into Discord embeds and renders digests of the open issues. Go strings are byte
  sequences, and \<open>len\<close> and slicing count bytes; a HOL \<open>string\<close> is a list of 8-bit
  characters, so \<open>length\<close>, \<open>take\<close> and \<open>@\<close> are Go's \<open>len\<close>, \<open>s[:k]\<close> and \<open>+\<close>.
\<close>

subsection \<open>The Linear data model\<close>

text \<open>
  The structs of the program, one record each. A field keeps its Go name behind the name
  of its struct, since several structs have fields of the same name. A pointer field that
  may be \<open>nil\<close> is an \<open>option\<close>. A \<open>time.Time\<close> is the number of nanoseconds since the
  zero time.
\<close>

record State =
  State_ID :: string
  State_Name :: string
  State_Color :: string
  State_Type :: string

record User =
  User_ID :: string
  User_Name :: string
  User_DisplayName :: string
  User_Email :: string

record Team =
  Team_ID :: string
  Team_Name :: string
  Team_Key :: string

record Label =
  Label_ID :: string
  Label_Name :: string
  Label_Color :: string

record Issue =
  Issue_ID :: string
  Issue_Identifier :: string
  Issue_Title :: string
  Issue_Description :: string
  Issue_Priority :: int
  Issue_PriorityLabel :: string
  Issue_URL :: string
  Issue_CreatedAt :: int
  Issue_UpdatedAt :: int
  Issue_State :: State
  Issue_Assignee :: "User option"
  Issue_Team :: Team
  Issue_Labels :: "Label list"

record StatusGroup =
  SG_Name :: string
  SG_Type :: string
  SG_Color :: string
  SG_Issues :: "Issue list"

record AssigneeGroup =
  AG_Name :: string
  AG_Issues :: "Issue list"

text \<open>The payloads of the webhook events. \<open>json.RawMessage\<close> is the undecoded text.\<close>

record LinearWebhook =
  WH_Action :: string
  WH_Actor :: "User option"
  WH_CreatedAt :: string
  WH_Data :: string
  WH_Type :: string
  WH_URL :: string
  WH_UpdatedFrom :: string
  WH_WebhookID :: string
  WH_WebhookTS :: int

record LinearWebhookIssue =
  WI_ID :: string
  WI_Identifier :: string
  WI_Title :: string
  WI_Description :: string
  WI_Priority :: int
  WI_PriorityLabel :: string
  WI_State :: "State option"
  WI_Assignee :: "User option"
  WI_Team :: "Team option"
  WI_Labels :: "Label list"
  WI_URL :: string

record LinearWebhookComment =
  WC_ID :: string
  WC_Body :: string
  WC_Issue :: "LinearWebhookIssue option"
  WC_User :: "User option"
  WC_CreatedAt :: string
  WC_URL :: string

record LinearWebhookProject =
  WP_ID :: string
  WP_Name :: string
  WP_Description :: string
  WP_State :: string
  WP_URL :: string

record PageInfo =
  HasNextPage :: bool
  EndCursor :: string

record IssuesResponse =
  Nodes :: "Issue list"
  PageInfo :: PageInfo

subsection \<open>The Discord data model\<close>

record DiscordFooter =
  Footer_Text :: string
  Footer_IconURL :: string

record DiscordAuthor =
  Author_Name :: string
  Author_URL :: string
  Author_IconURL :: string

record DiscordField =
  Field_Name :: string
  Field_Value :: string
  Field_Inline :: bool

record DiscordEmbed =
  Embed_Title :: string
  Embed_Description :: string
  Embed_URL :: string
  Embed_Color :: int
  Embed_Timestamp :: string
  Embed_Footer :: "DiscordFooter option"
  Embed_Author :: "DiscordAuthor option"
  Embed_Fields :: "DiscordField list"

record DiscordWebhook =
  DW_Content :: string
  DW_Username :: string
  DW_AvatarURL :: string
  DW_Embeds :: "DiscordEmbed list"

text \<open>The colour constants.\<close>

definition ColorBlue :: int where "ColorBlue = 0x5E6AD2"
definition ColorGreen :: int where "ColorGreen = 0x22C55E"
definition ColorYellow :: int where "ColorYellow = 0xEAB308"
definition ColorRed :: int where "ColorRed = 0xEF4444"
definition ColorGray :: int where "ColorGray = 0x6B7280"
definition ColorPurple :: int where "ColorPurple = 0x8B5CF6"

subsection \<open>Errors, events and the outside world\<close>

text \<open>
  The \<open>error\<close> values of the program. \<open>Wrapped prefix err\<close> is
  \<open>fmt.Errorf(prefix + "%w", err)\<close>; the other constructors are the errors that the
  program builds from a status code or from the errors of a GraphQL reply, and the errors
  that come out of the standard library.
\<close>

datatype error =
    LibError string
  | Wrapped string error
  | DiscordStatus int string
  | LinearStatus int string
  | GraphQLErrors "string list"

record GraphQLRequest =
  Query :: string
  Variables :: "(string \<times> string) list"

record GraphQLResponse =
  Data :: string
  Errors :: "string list"

text \<open>
  What a run does to the outside world, in order: a request to the Linear API, a request
  to the Discord webhook, a sleep of so many milliseconds. Log lines are left out.
\<close>

datatype event =
    Requested GraphQLRequest
  | Posted DiscordWebhook
  | Slept nat

text \<open>
  The outcome of \<open>json.Marshal\<close> and \<open>http.Post\<close> in sendToDiscord, and of
  \<open>json.Marshal\<close>, \<open>http.NewRequest\<close>, \<open>client.Do\<close> and \<open>io.ReadAll\<close> in
  executeGraphQL. A reply carries the status code and the body.
\<close>

datatype discordOutcome =
    DiscordMarshalFailed error
  | DiscordPostFailed error
  | DiscordReplied int string

datatype linearOutcome =
    LinearMarshalFailed error
  | LinearRequestFailed error
  | LinearDoFailed error
  | LinearReadFailed error
  | LinearReplied int string

text \<open>
  The parts of a run that the program does not decide: the JSON decoders of the standard
  library for each target type, \<open>strings.Title\<close>, the clock (the formatted time stamp
  and the instant), and the two remote services. A service answers a request knowing the
  events before it. \<open>linearAPIKey\<close> is the global variable read from the environment.
\<close>

record Runtime =
  jsonWebhook :: "string \<Rightarrow> error + LinearWebhook"
  jsonIssue :: "string \<Rightarrow> error + LinearWebhookIssue"
  jsonComment :: "string \<Rightarrow> error + LinearWebhookComment"
  jsonProject :: "string \<Rightarrow> error + LinearWebhookProject"
  jsonGraphQL :: "string \<Rightarrow> error + GraphQLResponse"
  jsonIssues :: "string \<Rightarrow> error + IssuesResponse"
  stringsTitle :: "string \<Rightarrow> string"
  timeNowRFC3339 :: string
  timeNow :: int
  discordPost :: "event list \<Rightarrow> DiscordWebhook \<Rightarrow> discordOutcome"
  linearPost :: "event list \<Rightarrow> GraphQLRequest \<Rightarrow> linearOutcome"
  linearAPIKey :: string

record HttpRequest =
  Req_Method :: string
  Req_Body :: "error + string"

record HttpResponse =
  Resp_Status :: int
  Resp_ContentType :: string
  Resp_Body :: string

subsection \<open>Run-time failures\<close>

text \<open>
  A Go panic is a value of its own, apart from the \<open>error\<close> values that functions return.
  The only panic the modelled code can raise is the bounds check of a slice expression.
\<close>

datatype panic = SliceBoundsOutOfRange

subsection \<open>Machine integers\<close>

text \<open>
  Go's \<open>int\<close> is 64 bits wide on the platforms the service is built for. \<open>int64\<close> says that
  a mathematical integer is a value of that type, \<open>wrap64\<close> is the two's complement
  wrap-around of an arithmetic result.
\<close>

definition int64 :: "int \<Rightarrow> bool" where
  "int64 x \<longleftrightarrow> - (2 ^ 63) \<le> x \<and> x < 2 ^ 63"

definition wrap64 :: "int \<Rightarrow> int" where
  "wrap64 x = (x + 2 ^ 63) mod 2 ^ 64 - 2 ^ 63"

subsection \<open>truncate\<close>

text \<open>
  \<^verbatim>\<open>
  func truncate(s string, maxLen int) string {
      if len(s) <= maxLen { return s }
      return s[:maxLen-3] + "..."
  }
  \<close>
  The slice expression \<open>s[:k]\<close> panics unless \<open>0 \<le> k \<le> len(s)\<close>.
\<close>

definition truncate :: "string \<Rightarrow> int \<Rightarrow> panic + string" where
  "truncate s maxLen =
     (if int (length s) \<le> maxLen then Inr s
      else if wrap64 (maxLen - 3) < 0 \<or> int (length s) < wrap64 (maxLen - 3)
           then Inl SliceBoundsOutOfRange
      else Inr (take (nat (wrap64 (maxLen - 3))) s @ ''...''))"

text \<open>Sequencing of a computation that may panic.\<close>

definition thenP :: "panic + 'a \<Rightarrow> ('a \<Rightarrow> panic + 'b) \<Rightarrow> panic + 'b" where
  "thenP m f = (case m of Inl p \<Rightarrow> Inl p | Inr x \<Rightarrow> f x)"

subsection \<open>Library contracts: ranging over a map, sort.Slice\<close>

text \<open>
  Go visits the entries of a map in an order that is not specified and changes from run
  to run. A run of \<open>for _, g := range groups\<close> is described by the list \<open>ks\<close> of the keys in
  the order of the visit: every key of the map, once.
\<close>

definition rangeOrder :: "('k \<rightharpoonup> 'v) \<Rightarrow> 'k list \<Rightarrow> bool" where
  "rangeOrder m ks \<longleftrightarrow> distinct ks \<and> set ks = dom m"

definition rangeValues :: "('k \<rightharpoonup> 'v) \<Rightarrow> 'k list \<Rightarrow> 'v list" where
  "rangeValues m ks = map (\<lambda>k. the (m k)) ks"

text \<open>
  \<open>sort.Slice(x, less)\<close> of the standard library reorders the slice so that no element is
  \<open>less\<close> than an element before it; the sort is not stable, so elements that \<open>less\<close> does
  not separate end in any order. \<open>sortSlice lt xs ys\<close> says that \<open>ys\<close> is a possible
  content of the slice after sorting \<open>xs\<close> with the comparison \<open>lt\<close>. The library asks
  the comparison to be a strict weak ordering, which \<open>strictWeakOrder\<close> states; the
  comparisons of the program are (\<open>statusLess_swo\<close>, \<open>assigneeLess_swo\<close>).
\<close>

definition sortSlice :: "('a \<Rightarrow> 'a \<Rightarrow> bool) \<Rightarrow> 'a list \<Rightarrow> 'a list \<Rightarrow> bool" where
  "sortSlice lt xs ys \<longleftrightarrow> mset ys = mset xs \<and> sorted_wrt (\<lambda>a b. \<not> lt b a) ys"

definition strictWeakOrder :: "('a \<Rightarrow> 'a \<Rightarrow> bool) \<Rightarrow> bool" where
  "strictWeakOrder lt \<longleftrightarrow>
     (\<forall>a. \<not> lt a a)
     \<and> (\<forall>a b c. lt a b \<and> lt b c \<longrightarrow> lt a c)
     \<and> (\<forall>a b c. \<not> lt a b \<and> \<not> lt b c \<longrightarrow> \<not> lt a c)"

text \<open>One sort that meets the contract: insertion of each element before the first greater one.\<close>

fun insertBy :: "('a \<Rightarrow> 'a \<Rightarrow> bool) \<Rightarrow> 'a \<Rightarrow> 'a list \<Rightarrow> 'a list" where
  "insertBy lt x [] = [x]"
| "insertBy lt x (y # ys) = (if lt x y then x # y # ys else y # insertBy lt x ys)"

fun insertionSort :: "('a \<Rightarrow> 'a \<Rightarrow> bool) \<Rightarrow> 'a list \<Rightarrow> 'a list" where
  "insertionSort lt [] = []"
| "insertionSort lt (x # xs) = insertBy lt x (insertionSort lt xs)"

subsection \<open>groupByStatus and getStatusPriority\<close>

text \<open>
  \<^verbatim>\<open>
  func getStatusPriority(statusType string) int {
      switch statusType {
      case "started":   return 1
      case "unstarted": return 2
      case "backlog":   return 3
      default:          return 4
      }
  }
  \<close>
\<close>

definition getStatusPriority :: "string \<Rightarrow> int" where
  "getStatusPriority statusType =
     (if statusType = ''started'' then 1
      else if statusType = ''unstarted'' then 2
      else if statusType = ''backlog'' then 3
      else 4)"

text \<open>
  One round of the first loop of groupByStatus:
  \<^verbatim>\<open>
  key := issue.State.Name
  if groups[key] == nil {
      groups[key] = &StatusGroup{Name: issue.State.Name, Type: issue.State.Type,
                                 Color: issue.State.Color, Issues: []Issue{}}
  }
  groups[key].Issues = append(groups[key].Issues, issue)
  \<close>
\<close>

definition statusKey :: "Issue \<Rightarrow> string" where
  "statusKey issue = State_Name (Issue_State issue)"

definition statusStep :: "(string \<rightharpoonup> StatusGroup) \<Rightarrow> Issue \<Rightarrow> (string \<rightharpoonup> StatusGroup)" where
  "statusStep groups issue =
     (let key = statusKey issue;
          g = (case groups key of
                 None \<Rightarrow> \<lparr>SG_Name = State_Name (Issue_State issue),
                           SG_Type = State_Type (Issue_State issue),
                           SG_Color = State_Color (Issue_State issue),
                           SG_Issues = []\<rparr>
               | Some g0 \<Rightarrow> g0)
      in groups(key \<mapsto> g\<lparr>SG_Issues := SG_Issues g @ [issue]\<rparr>))"

definition statusGroups :: "Issue list \<Rightarrow> (string \<rightharpoonup> StatusGroup)" where
  "statusGroups issues = foldl statusStep Map.empty issues"

text \<open>The comparison handed to sort.Slice.\<close>

definition statusLess :: "StatusGroup \<Rightarrow> StatusGroup \<Rightarrow> bool" where
  "statusLess a b \<longleftrightarrow> getStatusPriority (SG_Type a) < getStatusPriority (SG_Type b)"

text \<open>
  \<open>groupByStatus ks issues result\<close>: the call \<open>groupByStatus(issues)\<close> can return \<open>result\<close>,
  in the run that ranges over the map in the order \<open>ks\<close>.
\<close>

definition groupByStatus :: "string list \<Rightarrow> Issue list \<Rightarrow> StatusGroup list \<Rightarrow> bool" where
  "groupByStatus ks issues result \<longleftrightarrow>
     rangeOrder (statusGroups issues) ks
     \<and> sortSlice statusLess (rangeValues (statusGroups issues) ks) result"

text \<open>A run of groupByStatus: keys in the order of their last issue, insertion sort.\<close>

definition groupByStatus_run :: "Issue list \<Rightarrow> StatusGroup list" where
  "groupByStatus_run issues =
     insertionSort statusLess
       (rangeValues (statusGroups issues) (remdups (map statusKey issues)))"

subsection \<open>groupByAssignee\<close>

text \<open>
  The name under which an issue is grouped:
  \<^verbatim>\<open>
  if issue.Assignee != nil {
      name = issue.Assignee.Name
      if issue.Assignee.DisplayName != "" { name = issue.Assignee.DisplayName }
  } else {
      name = "Unassigned"
  }
  \<close>
\<close>

definition assigneeName :: "Issue \<Rightarrow> string" where
  "assigneeName issue =
     (case Issue_Assignee issue of
        Some u \<Rightarrow> (if User_DisplayName u \<noteq> [] then User_DisplayName u else User_Name u)
      | None \<Rightarrow> ''Unassigned'')"

text \<open>
  \<^verbatim>\<open>
  if groups[name] == nil {
      groups[name] = &AssigneeGroup{Name: name, Issues: []Issue{}}
  }
  groups[name].Issues = append(groups[name].Issues, issue)
  \<close>
\<close>

definition assigneeStep :: "(string \<rightharpoonup> AssigneeGroup) \<Rightarrow> Issue \<Rightarrow> (string \<rightharpoonup> AssigneeGroup)" where
  "assigneeStep groups issue =
     (let name = assigneeName issue;
          g = (case groups name of
                 None \<Rightarrow> \<lparr>AG_Name = name, AG_Issues = []\<rparr>
               | Some g0 \<Rightarrow> g0)
      in groups(name \<mapsto> g\<lparr>AG_Issues := AG_Issues g @ [issue]\<rparr>))"

definition assigneeGroups :: "Issue list \<Rightarrow> (string \<rightharpoonup> AssigneeGroup)" where
  "assigneeGroups issues = foldl assigneeStep Map.empty issues"

text \<open>
  \<^verbatim>\<open>
  sort.Slice(result, func(i, j int) bool {
      if result[i].Name == "Unassigned" { return false }
      if result[j].Name == "Unassigned" { return true }
      return len(result[i].Issues) > len(result[j].Issues)
  })
  \<close>
\<close>

definition assigneeLess :: "AssigneeGroup \<Rightarrow> AssigneeGroup \<Rightarrow> bool" where
  "assigneeLess a b =
     (if AG_Name a = ''Unassigned'' then False
      else if AG_Name b = ''Unassigned'' then True
      else length (AG_Issues a) > length (AG_Issues b))"

definition groupByAssignee :: "string list \<Rightarrow> Issue list \<Rightarrow> AssigneeGroup list \<Rightarrow> bool" where
  "groupByAssignee ks issues result \<longleftrightarrow>
     rangeOrder (assigneeGroups issues) ks
     \<and> sortSlice assigneeLess (rangeValues (assigneeGroups issues) ks) result"

definition groupByAssignee_run :: "Issue list \<Rightarrow> AssigneeGroup list" where
  "groupByAssignee_run issues =
     insertionSort assigneeLess
       (rangeValues (assigneeGroups issues) (remdups (map assigneeName issues)))"

subsection \<open>Formatting\<close>

text \<open>The verb \<open>%d\<close> of \<open>fmt.Sprintf\<close>: an integer in decimal.\<close>

fun showNat :: "nat \<Rightarrow> string" where
  "showNat n =
     (if n < 10 then [''0123456789'' ! n]
      else showNat (n div 10) @ [''0123456789'' ! (n mod 10)])"

declare showNat.simps [simp del]

definition showInt :: "int \<Rightarrow> string" where
  "showInt i = (if i < 0 then ''-'' @ showNat (nat (- i)) else showNat (nat i))"

text \<open>\<open>strings.Join(elems, sep)\<close>.\<close>

fun stringsJoin :: "string list \<Rightarrow> string \<Rightarrow> string" where
  "stringsJoin [] sep = []"
| "stringsJoin [x] sep = x"
| "stringsJoin (x # y # ys) sep = x @ sep @ stringsJoin (y # ys) sep"

text \<open>\<open>http.Error(w, msg, code)\<close> and \<open>json.NewEncoder(w).Encode(map[string]string{"status": s})\<close>.\<close>

definition httpError :: "string \<Rightarrow> int \<Rightarrow> HttpResponse" where
  "httpError msg code =
     \<lparr>Resp_Status = code, Resp_ContentType = ''text/plain; charset=utf-8'',
      Resp_Body = msg @ [CHR 0x0A]\<rparr>"

definition jsonStatus :: "string \<Rightarrow> HttpResponse" where
  "jsonStatus s =
     \<lparr>Resp_Status = 200, Resp_ContentType = ''application/json'',
      Resp_Body = ''{'' @ [CHR 0x22] @ ''status'' @ [CHR 0x22] @ '':'' @ [CHR 0x22] @ s
                  @ [CHR 0x22] @ ''}'' @ [CHR 0x0A]\<rparr>"

subsection \<open>Emoji\<close>

text \<open>
  \<^verbatim>\<open>
  func getStateEmoji(stateType string) string
  func getPriorityEmoji(priority int) string
  \<close>
  The string literals are the bytes of the source file.
\<close>

definition getStateEmoji :: "string \<Rightarrow> string" where
  "getStateEmoji stateType =
     (if stateType = ''backlog'' then [CHR 0xC3, CHR 0xB0, CHR 0xC5, CHR 0xB8, CHR 0xE2, CHR 0x80, CHR 0x9C, CHR 0xC2, CHR 0xA5]
      else if stateType = ''unstarted'' then [CHR 0xC3, CHR 0xA2, CHR 0xC5, CHR 0xA1, CHR 0xC2, CHR 0xAA]
      else if stateType = ''started'' then [CHR 0xC3, CHR 0xB0, CHR 0xC5, CHR 0xB8, CHR 0xE2, CHR 0x80, CHR 0x9D, CHR 0xC2, CHR 0xB5]
      else if stateType = ''completed'' then [CHR 0xC3, CHR 0xA2, CHR 0xC5, CHR 0x93, CHR 0xE2, CHR 0x80, CHR 0xA6]
      else if stateType = ''canceled'' then [CHR 0xC3, CHR 0xA2, CHR 0xC5, CHR 0x92]
      else [CHR 0xC3, CHR 0xB0, CHR 0xC5, CHR 0xB8, CHR 0xE2, CHR 0x80, CHR 0x9C, CHR 0xE2, CHR 0x80, CHR 0xB9])"

definition getPriorityEmoji :: "int \<Rightarrow> string" where
  "getPriorityEmoji priority =
     (if priority = 0 then [CHR 0xC3, CHR 0xA2, CHR 0xC2, CHR 0xAC, CHR 0xC5, CHR 0x93]
      else if priority = 1 then [CHR 0xC3, CHR 0xB0, CHR 0xC5, CHR 0xB8, CHR 0xE2, CHR 0x80, CHR 0x9D, CHR 0xC2, CHR 0xB4]
      else if priority = 2 then [CHR 0xC3, CHR 0xB0, CHR 0xC5, CHR 0xB8, CHR 0xC5, CHR 0xB8, CHR 0xC2, CHR 0xA0]
      else if priority = 3 then [CHR 0xC3, CHR 0xB0, CHR 0xC5, CHR 0xB8, CHR 0xC5, CHR 0xB8, CHR 0xC2, CHR 0xA1]
      else if priority = 4 then [CHR 0xC3, CHR 0xB0, CHR 0xC5, CHR 0xB8, CHR 0xC5, CHR 0xB8, CHR 0xC2, CHR 0xA2]
      else [CHR 0xC3, CHR 0xA2, CHR 0xC2, CHR 0xAC, CHR 0xC5, CHR 0x93])"

definition linearAvatarURL :: string where
  "linearAvatarURL = ''https://asset.brandfetch.io/ideiLNHwrW/id_xq4rBdb.png''"

subsection \<open>sendToDiscord\<close>

text \<open>
  \<^verbatim>\<open>
  jsonData, err := json.Marshal(payload)
  if err != nil { return fmt.Errorf("failed to marshal discord payload: %w", err) }
  resp, err := http.Post(discordWebhookURL, "application/json", bytes.NewBuffer(jsonData))
  if err != nil { return fmt.Errorf("failed to send to discord: %w", err) }
  if resp.StatusCode < 200 || resp.StatusCode >= 300 {
      body, _ := io.ReadAll(resp.Body)
      return fmt.Errorf("discord returned status %d: %s", resp.StatusCode, string(body))
  }
  return nil
  \<close>
  The result is the error (\<open>None\<close> for \<open>nil\<close>) and the events so far.
\<close>

definition sendToDiscord :: "Runtime \<Rightarrow> DiscordWebhook \<Rightarrow> event list \<Rightarrow> error option \<times> event list" where
  "sendToDiscord rt payload tr =
     (case discordPost rt tr payload of
        DiscordMarshalFailed err \<Rightarrow> (Some (Wrapped ''failed to marshal discord payload: '' err), tr)
      | DiscordPostFailed err \<Rightarrow> (Some (Wrapped ''failed to send to discord: '' err), tr @ [Posted payload])
      | DiscordReplied status body \<Rightarrow>
          (if status < 200 \<or> status \<ge> 300 then Some (DiscordStatus status body) else None,
           tr @ [Posted payload]))"

subsection \<open>The webhook transformers\<close>

text \<open>The footer that the three transformers set when the event has an actor.\<close>

definition actorFooter :: "LinearWebhook \<Rightarrow> DiscordFooter option" where
  "actorFooter webhook =
     (case WH_Actor webhook of
        Some actor \<Rightarrow> Some \<lparr>Footer_Text = ''by '' @ User_Name actor, Footer_IconURL = []\<rparr>
      | None \<Rightarrow> None)"

definition linearPayload :: "DiscordEmbed \<Rightarrow> DiscordWebhook" where
  "linearPayload e =
     \<lparr>DW_Content = [], DW_Username = ''Linear'', DW_AvatarURL = linearAvatarURL,
      DW_Embeds = [e]\<rparr>"

text \<open>
  The switch on the action in transformIssueWebhook: emoji, title and colour.
  \<^verbatim>\<open>
  color := ColorBlue
  switch webhook.Action {
  case "create": emoji = ...; title = "New Issue Created"; color = ColorBlue
  case "update": emoji = ...; title = "Issue Updated";     color = ColorYellow
  case "remove": emoji = ...; title = "Issue Removed";     color = ColorRed
  default:       emoji = ...; title = fmt.Sprintf("Issue %s", strings.Title(webhook.Action))
  }
  \<close>
\<close>

definition issueStyle :: "Runtime \<Rightarrow> string \<Rightarrow> string \<times> string \<times> int" where
  "issueStyle rt action =
     (if action = ''create'' then ([CHR 0xC3, CHR 0xB0, CHR 0xC5, CHR 0xB8, CHR 0xC5, CHR 0xBD, CHR 0xC2, CHR 0xAF], ''New Issue Created'', ColorBlue)
      else if action = ''update'' then ([CHR 0xC3, CHR 0xB0, CHR 0xC5, CHR 0xB8, CHR 0xE2, CHR 0x80, CHR 0x9C], ''Issue Updated'', ColorYellow)
      else if action = ''remove'' then ([CHR 0xC3, CHR 0xB0, CHR 0xC5, CHR 0xB8, CHR 0xE2, CHR 0x80, CHR 0x94, CHR 0xE2, CHR 0x80, CHR 0x98, CHR 0xC3, CHR 0xAF, CHR 0xC2, CHR 0xB8], ''Issue Removed'', ColorRed)
      else ([CHR 0xC3, CHR 0xB0, CHR 0xC5, CHR 0xB8, CHR 0xE2, CHR 0x80, CHR 0x9C, CHR 0xE2, CHR 0x80, CHR 0xB9], ''Issue '' @ stringsTitle rt action, ColorBlue))"

definition issueFields :: "LinearWebhookIssue \<Rightarrow> DiscordField list" where
  "issueFields issue =
     (case WI_State issue of
        Some st \<Rightarrow> [\<lparr>Field_Name = ''Status'',
                      Field_Value = getStateEmoji (State_Type st) @ '' '' @ State_Name st,
                      Field_Inline = True\<rparr>]
      | None \<Rightarrow> [])
     @ (if WI_PriorityLabel issue \<noteq> []
        then [\<lparr>Field_Name = ''Priority'',
               Field_Value = getPriorityEmoji (WI_Priority issue) @ '' '' @ WI_PriorityLabel issue,
               Field_Inline = True\<rparr>]
        else [])
     @ (case WI_Assignee issue of
          Some u \<Rightarrow> [\<lparr>Field_Name = ''Assignee'',
                       Field_Value = [CHR 0xC3, CHR 0xB0, CHR 0xC5, CHR 0xB8, CHR 0xE2, CHR 0x80, CHR 0x98, CHR 0xC2, CHR 0xA4] @ '' '' @ User_Name u,
                       Field_Inline = True\<rparr>]
        | None \<Rightarrow> [])
     @ (case WI_Team issue of
          Some t \<Rightarrow> [\<lparr>Field_Name = ''Team'',
                       Field_Value = [CHR 0xC3, CHR 0xB0, CHR 0xC5, CHR 0xB8, CHR 0xE2, CHR 0x80, CHR 0x98, CHR 0xC2, CHR 0xA5] @ '' '' @ Team_Name t,
                       Field_Inline = True\<rparr>]
        | None \<Rightarrow> [])
     @ (if length (WI_Labels issue) > 0
        then [\<lparr>Field_Name = ''Labels'',
               Field_Value =
                 stringsJoin (map (\<lambda>label. ''`'' @ Label_Name label @ ''`'') (WI_Labels issue)) '' '',
               Field_Inline = False\<rparr>]
        else [])"

text \<open>
  \<^verbatim>\<open>
  func transformIssueWebhook(webhook LinearWebhook) (*DiscordWebhook, error)
  \<close>
  The result of a transformer is a panic, or the pair that the Go function returns: an
  error, or the payload, \<open>None\<close> for the \<open>nil\<close> pointer.
\<close>

definition transformIssueWebhook :: "Runtime \<Rightarrow> LinearWebhook \<Rightarrow> panic + (error + DiscordWebhook option)" where
  "transformIssueWebhook rt webhook =
     (case jsonIssue rt (WH_Data webhook) of
        Inl err \<Rightarrow> Inr (Inl (Wrapped ''failed to parse issue data: '' err))
      | Inr issue \<Rightarrow>
          (case issueStyle rt (WH_Action webhook) of (emoji, title, color) \<Rightarrow>
             thenP (truncate (WI_Description issue) 300) (\<lambda>d.
               Inr (Inr (Some (linearPayload
                 \<lparr>Embed_Title = emoji @ '' '' @ title,
                  Embed_Description =
                    ''**['' @ WI_Identifier issue @ '']('' @ WI_URL issue @ '')** - '' @ WI_Title issue @ [CHR 0x0A, CHR 0x0A] @ (if d = [] then ''*No description*'' else d),
                  Embed_URL = WI_URL issue,
                  Embed_Color = color,
                  Embed_Timestamp = timeNowRFC3339 rt,
                  Embed_Footer = actorFooter webhook,
                  Embed_Author = None,
                  Embed_Fields = issueFields issue\<rparr>))))))"

text \<open>
  The switch of transformCommentWebhook sets the emoji and the title only; the colour of
  the embed is the constant ColorPurple.
\<close>

definition commentStyle :: "Runtime \<Rightarrow> string \<Rightarrow> string \<times> string" where
  "commentStyle rt action =
     (if action = ''create'' then ([CHR 0xC3, CHR 0xB0, CHR 0xC5, CHR 0xB8, CHR 0xE2, CHR 0x80, CHR 0x99, CHR 0xC2, CHR 0xAC], ''New Comment'')
      else if action = ''update'' then ([CHR 0xC3, CHR 0xA2, CHR 0xC5, CHR 0x93, CHR 0xC3, CHR 0xAF, CHR 0xC2, CHR 0xB8], ''Comment Updated'')
      else if action = ''remove'' then ([CHR 0xC3, CHR 0xB0, CHR 0xC5, CHR 0xB8, CHR 0xE2, CHR 0x80, CHR 0x94, CHR 0xE2, CHR 0x80, CHR 0x98, CHR 0xC3, CHR 0xAF, CHR 0xC2, CHR 0xB8], ''Comment Removed'')
      else ([CHR 0xC3, CHR 0xB0, CHR 0xC5, CHR 0xB8, CHR 0xE2, CHR 0x80, CHR 0x99, CHR 0xC2, CHR 0xAC], ''Comment '' @ stringsTitle rt action))"

definition transformCommentWebhook :: "Runtime \<Rightarrow> LinearWebhook \<Rightarrow> panic + (error + DiscordWebhook option)" where
  "transformCommentWebhook rt webhook =
     (case jsonComment rt (WH_Data webhook) of
        Inl err \<Rightarrow> Inr (Inl (Wrapped ''failed to parse comment data: '' err))
      | Inr comment \<Rightarrow>
          (case commentStyle rt (WH_Action webhook) of (emoji, title) \<Rightarrow>
             thenP (truncate (WC_Body comment) 500) (\<lambda>body.
               Inr (Inr (Some (linearPayload
                 \<lparr>Embed_Title = emoji @ '' '' @ title,
                  Embed_Description =
                    (case WC_Issue comment of Some i \<Rightarrow> ''**['' @ WI_Identifier i @ '']('' @ WI_URL i @ '')** - '' @ WI_Title i | None \<Rightarrow> []) @ [CHR 0x0A, CHR 0x0A] @ ''>>> '' @ body,
                  Embed_URL = WC_URL comment,
                  Embed_Color = ColorPurple,
                  Embed_Timestamp = timeNowRFC3339 rt,
                  Embed_Footer = actorFooter webhook,
                  Embed_Author =
                    (case WC_User comment of
                       Some u \<Rightarrow> Some \<lparr>Author_Name = User_Name u, Author_URL = [],
                                        Author_IconURL = []\<rparr>
                     | None \<Rightarrow> None),
                  Embed_Fields = []\<rparr>))))))"

text \<open>
  \<^verbatim>\<open>
  color := ColorBlue
  switch webhook.Action {
  case "create": emoji = ...; title = "New Project Created"; color = ColorGreen
  case "update": emoji = ...; title = "Project Updated";     color = ColorYellow
  case "remove": emoji = ...; title = "Project Removed";     color = ColorRed
  default:       emoji = ...; title = fmt.Sprintf("Project %s", strings.Title(webhook.Action))
  }
  \<close>
\<close>

definition projectStyle :: "Runtime \<Rightarrow> string \<Rightarrow> string \<times> string \<times> int" where
  "projectStyle rt action =
     (if action = ''create'' then ([CHR 0xC3, CHR 0xB0, CHR 0xC5, CHR 0xB8, CHR 0xC5, CHR 0xA1, CHR 0xE2, CHR 0x82, CHR 0xAC], ''New Project Created'', ColorGreen)
      else if action = ''update'' then ([CHR 0xC3, CHR 0xB0, CHR 0xC5, CHR 0xB8, CHR 0xE2, CHR 0x80, CHR 0x9C, CHR 0xC5, CHR 0xA0], ''Project Updated'', ColorYellow)
      else if action = ''remove'' then ([CHR 0xC3, CHR 0xB0, CHR 0xC5, CHR 0xB8, CHR 0xE2, CHR 0x80, CHR 0x94, CHR 0xE2, CHR 0x80, CHR 0x98, CHR 0xC3, CHR 0xAF, CHR 0xC2, CHR 0xB8], ''Project Removed'', ColorRed)
      else ([CHR 0xC3, CHR 0xB0, CHR 0xC5, CHR 0xB8, CHR 0xE2, CHR 0x80, CHR 0x9C], ''Project '' @ stringsTitle rt action, ColorBlue))"

definition transformProjectWebhook :: "Runtime \<Rightarrow> LinearWebhook \<Rightarrow> panic + (error + DiscordWebhook option)" where
  "transformProjectWebhook rt webhook =
     (case jsonProject rt (WH_Data webhook) of
        Inl err \<Rightarrow> Inr (Inl (Wrapped ''failed to parse project data: '' err))
      | Inr project \<Rightarrow>
          (case projectStyle rt (WH_Action webhook) of (emoji, title, color) \<Rightarrow>
             thenP (truncate (WP_Description project) 300) (\<lambda>d.
               Inr (Inr (Some (linearPayload
                 \<lparr>Embed_Title = emoji @ '' '' @ title,
                  Embed_Description =
                    ''**'' @ WP_Name project @ ''**'' @ [CHR 0x0A, CHR 0x0A] @ (if d = [] then ''*No description*'' else d),
                  Embed_URL = WP_URL project,
                  Embed_Color = color,
                  Embed_Timestamp = timeNowRFC3339 rt,
                  Embed_Footer = actorFooter webhook,
                  Embed_Author = None,
                  Embed_Fields =
                    (if WP_State project \<noteq> []
                     then [\<lparr>Field_Name = ''State'', Field_Value = WP_State project,
                            Field_Inline = True\<rparr>]
                     else [])\<rparr>))))))"

text \<open>
  \<^verbatim>\<open>
  func transformWebhookToDiscord(webhook LinearWebhook) (*DiscordWebhook, error) {
      switch webhook.Type {
      case "Issue":   return transformIssueWebhook(webhook)
      case "Comment": return transformCommentWebhook(webhook)
      case "Project": return transformProjectWebhook(webhook)
      default:        return nil, nil
      }
  }
  \<close>
\<close>

definition transformWebhookToDiscord :: "Runtime \<Rightarrow> LinearWebhook \<Rightarrow> panic + (error + DiscordWebhook option)" where
  "transformWebhookToDiscord rt webhook =
     (if WH_Type webhook = ''Issue'' then transformIssueWebhook rt webhook
      else if WH_Type webhook = ''Comment'' then transformCommentWebhook rt webhook
      else if WH_Type webhook = ''Project'' then transformProjectWebhook rt webhook
      else Inr (Inr None))"

subsection \<open>handleLinearWebhook\<close>

text \<open>
  The handler of \<open>/webhook\<close>. The result is a panic, or the response written and the
  events of the run.
  \<^verbatim>\<open>
  if r.Method != http.MethodPost { http.Error(w, "Method not allowed", 405); return }
  body, err := io.ReadAll(r.Body)
  if err != nil { http.Error(w, "Error reading request", 400); return }
  if err := json.Unmarshal(body, &webhook); err != nil { http.Error(w, "Invalid JSON", 400); return }
  discordPayload, err := transformWebhookToDiscord(webhook)
  if err != nil { http.Error(w, "Error processing webhook", 500); return }
  if discordPayload == nil { w.WriteHeader(http.StatusOK); return }
  if err := sendToDiscord(discordPayload); err != nil {
      http.Error(w, "Error forwarding to Discord", 500); return
  }
  w.Header().Set("Content-Type", "application/json")
  json.NewEncoder(w).Encode(map[string]string{"status": "forwarded"})
  \<close>
\<close>

definition handleLinearWebhook :: "Runtime \<Rightarrow> HttpRequest \<Rightarrow> event list \<Rightarrow> panic + (HttpResponse \<times> event list)" where
  "handleLinearWebhook rt r tr =
     (if Req_Method r \<noteq> ''POST'' then Inr (httpError ''Method not allowed'' 405, tr)
      else case Req_Body r of
        Inl err \<Rightarrow> Inr (httpError ''Error reading request'' 400, tr)
      | Inr body \<Rightarrow>
          (case jsonWebhook rt body of
             Inl err \<Rightarrow> Inr (httpError ''Invalid JSON'' 400, tr)
           | Inr webhook \<Rightarrow>
               thenP (transformWebhookToDiscord rt webhook) (\<lambda>res.
                 case res of
                   Inl err \<Rightarrow> Inr (httpError ''Error processing webhook'' 500, tr)
                 | Inr None \<Rightarrow>
                     Inr (\<lparr>Resp_Status = 200, Resp_ContentType = [], Resp_Body = []\<rparr>, tr)
                 | Inr (Some discordPayload) \<Rightarrow>
                     (case sendToDiscord rt discordPayload tr of
                        (Some err, tr') \<Rightarrow> Inr (httpError ''Error forwarding to Discord'' 500, tr')
                      | (None, tr') \<Rightarrow> Inr (jsonStatus ''forwarded'', tr')))))"

subsection \<open>executeGraphQL and fetchAllOpenIssues\<close>

text \<open>The text of the query for the open issues.\<close>

definition issuesQuery :: string where
  "issuesQuery =
     [CHR 0x0A]
     @ [CHR 0x09, CHR 0x09] @ ''query($cursor: String) {'' @ [CHR 0x0A]
     @ [CHR 0x09, CHR 0x09, CHR 0x09] @ ''issues('' @ [CHR 0x0A]
     @ [CHR 0x09, CHR 0x09, CHR 0x09, CHR 0x09] @ ''filter: {'' @ [CHR 0x0A]
     @ [CHR 0x09, CHR 0x09, CHR 0x09, CHR 0x09, CHR 0x09] @ ''state: { type: { nin: ['' @ [CHR 0x22] @ ''completed'' @ [CHR 0x22] @ '', '' @ [CHR 0x22] @ ''canceled'' @ [CHR 0x22] @ ''] } }'' @ [CHR 0x0A]
     @ [CHR 0x09, CHR 0x09, CHR 0x09, CHR 0x09] @ ''}'' @ [CHR 0x0A]
     @ [CHR 0x09, CHR 0x09, CHR 0x09, CHR 0x09] @ ''first: 100'' @ [CHR 0x0A]
     @ [CHR 0x09, CHR 0x09, CHR 0x09, CHR 0x09] @ ''after: $cursor'' @ [CHR 0x0A]
     @ [CHR 0x09, CHR 0x09, CHR 0x09, CHR 0x09] @ ''orderBy: updatedAt'' @ [CHR 0x0A]
     @ [CHR 0x09, CHR 0x09, CHR 0x09] @ '') {'' @ [CHR 0x0A]
     @ [CHR 0x09, CHR 0x09, CHR 0x09, CHR 0x09] @ ''nodes {'' @ [CHR 0x0A]
     @ [CHR 0x09, CHR 0x09, CHR 0x09, CHR 0x09, CHR 0x09] @ ''id'' @ [CHR 0x0A]
     @ [CHR 0x09, CHR 0x09, CHR 0x09, CHR 0x09, CHR 0x09] @ ''identifier'' @ [CHR 0x0A]
     @ [CHR 0x09, CHR 0x09, CHR 0x09, CHR 0x09, CHR 0x09] @ ''title'' @ [CHR 0x0A]
     @ [CHR 0x09, CHR 0x09, CHR 0x09, CHR 0x09, CHR 0x09] @ ''priority'' @ [CHR 0x0A]
     @ [CHR 0x09, CHR 0x09, CHR 0x09, CHR 0x09, CHR 0x09] @ ''priorityLabel'' @ [CHR 0x0A]
     @ [CHR 0x09, CHR 0x09, CHR 0x09, CHR 0x09, CHR 0x09] @ ''url'' @ [CHR 0x0A]
     @ [CHR 0x09, CHR 0x09, CHR 0x09, CHR 0x09, CHR 0x09] @ ''createdAt'' @ [CHR 0x0A]
     @ [CHR 0x09, CHR 0x09, CHR 0x09, CHR 0x09, CHR 0x09] @ ''updatedAt'' @ [CHR 0x0A]
     @ [CHR 0x09, CHR 0x09, CHR 0x09, CHR 0x09, CHR 0x09] @ ''state {'' @ [CHR 0x0A]
     @ [CHR 0x09, CHR 0x09, CHR 0x09, CHR 0x09, CHR 0x09, CHR 0x09] @ ''id'' @ [CHR 0x0A]
     @ [CHR 0x09, CHR 0x09, CHR 0x09, CHR 0x09, CHR 0x09, CHR 0x09] @ ''name'' @ [CHR 0x0A]
     @ [CHR 0x09, CHR 0x09, CHR 0x09, CHR 0x09, CHR 0x09, CHR 0x09] @ ''color'' @ [CHR 0x0A]
     @ [CHR 0x09, CHR 0x09, CHR 0x09, CHR 0x09, CHR 0x09, CHR 0x09] @ ''type'' @ [CHR 0x0A]
     @ [CHR 0x09, CHR 0x09, CHR 0x09, CHR 0x09, CHR 0x09] @ ''}'' @ [CHR 0x0A]
     @ [CHR 0x09, CHR 0x09, CHR 0x09, CHR 0x09, CHR 0x09] @ ''assignee {'' @ [CHR 0x0A]
     @ [CHR 0x09, CHR 0x09, CHR 0x09, CHR 0x09, CHR 0x09, CHR 0x09] @ ''id'' @ [CHR 0x0A]
     @ [CHR 0x09, CHR 0x09, CHR 0x09, CHR 0x09, CHR 0x09, CHR 0x09] @ ''name'' @ [CHR 0x0A]
     @ [CHR 0x09, CHR 0x09, CHR 0x09, CHR 0x09, CHR 0x09, CHR 0x09] @ ''displayName'' @ [CHR 0x0A]
     @ [CHR 0x09, CHR 0x09, CHR 0x09, CHR 0x09, CHR 0x09, CHR 0x09] @ ''email'' @ [CHR 0x0A]
     @ [CHR 0x09, CHR 0x09, CHR 0x09, CHR 0x09, CHR 0x09] @ ''}'' @ [CHR 0x0A]
     @ [CHR 0x09, CHR 0x09, CHR 0x09, CHR 0x09, CHR 0x09] @ ''team {'' @ [CHR 0x0A]
     @ [CHR 0x09, CHR 0x09, CHR 0x09, CHR 0x09, CHR 0x09, CHR 0x09] @ ''id'' @ [CHR 0x0A]
     @ [CHR 0x09, CHR 0x09, CHR 0x09, CHR 0x09, CHR 0x09, CHR 0x09] @ ''name'' @ [CHR 0x0A]
     @ [CHR 0x09, CHR 0x09, CHR 0x09, CHR 0x09, CHR 0x09, CHR 0x09] @ ''key'' @ [CHR 0x0A]
     @ [CHR 0x09, CHR 0x09, CHR 0x09, CHR 0x09, CHR 0x09] @ ''}'' @ [CHR 0x0A]
     @ [CHR 0x09, CHR 0x09, CHR 0x09, CHR 0x09, CHR 0x09] @ ''labels {'' @ [CHR 0x0A]
     @ [CHR 0x09, CHR 0x09, CHR 0x09, CHR 0x09, CHR 0x09, CHR 0x09] @ ''nodes {'' @ [CHR 0x0A]
     @ [CHR 0x09, CHR 0x09, CHR 0x09, CHR 0x09, CHR 0x09, CHR 0x09, CHR 0x09] @ ''id'' @ [CHR 0x0A]
     @ [CHR 0x09, CHR 0x09, CHR 0x09, CHR 0x09, CHR 0x09, CHR 0x09, CHR 0x09] @ ''name'' @ [CHR 0x0A]
     @ [CHR 0x09, CHR 0x09, CHR 0x09, CHR 0x09, CHR 0x09, CHR 0x09, CHR 0x09] @ ''color'' @ [CHR 0x0A]
     @ [CHR 0x09, CHR 0x09, CHR 0x09, CHR 0x09, CHR 0x09, CHR 0x09] @ ''}'' @ [CHR 0x0A]
     @ [CHR 0x09, CHR 0x09, CHR 0x09, CHR 0x09, CHR 0x09] @ ''}'' @ [CHR 0x0A]
     @ [CHR 0x09, CHR 0x09, CHR 0x09, CHR 0x09] @ ''}'' @ [CHR 0x0A]
     @ [CHR 0x09, CHR 0x09, CHR 0x09, CHR 0x09] @ ''pageInfo {'' @ [CHR 0x0A]
     @ [CHR 0x09, CHR 0x09, CHR 0x09, CHR 0x09, CHR 0x09] @ ''hasNextPage'' @ [CHR 0x0A]
     @ [CHR 0x09, CHR 0x09, CHR 0x09, CHR 0x09, CHR 0x09] @ ''endCursor'' @ [CHR 0x0A]
     @ [CHR 0x09, CHR 0x09, CHR 0x09, CHR 0x09] @ ''}'' @ [CHR 0x0A]
     @ [CHR 0x09, CHR 0x09, CHR 0x09] @ ''}'' @ [CHR 0x0A]
     @ [CHR 0x09, CHR 0x09] @ ''}'' @ [CHR 0x0A]
     @ [CHR 0x09]"

text \<open>
  \<^verbatim>\<open>
  func executeGraphQL(query string, variables map[string]interface{}) (json.RawMessage, error)
  \<close>
  The variables are the list of the entries of the Go map. The request is an event of
  the run once \<open>client.Do\<close> is called.
\<close>

definition executeGraphQL :: "Runtime \<Rightarrow> string \<Rightarrow> (string \<times> string) list \<Rightarrow> event list \<Rightarrow> (error + string) \<times> event list" where
  "executeGraphQL rt query variables tr =
     (case linearPost rt tr \<lparr>Query = query, Variables = variables\<rparr> of
        LinearMarshalFailed err \<Rightarrow> (Inl (Wrapped ''failed to marshal request: '' err), tr)
      | LinearRequestFailed err \<Rightarrow> (Inl (Wrapped ''failed to create request: '' err), tr)
      | LinearDoFailed err \<Rightarrow>
          (Inl (Wrapped ''failed to execute request: '' err),
           tr @ [Requested \<lparr>Query = query, Variables = variables\<rparr>])
      | LinearReadFailed err \<Rightarrow>
          (Inl (Wrapped ''failed to read response: '' err),
           tr @ [Requested \<lparr>Query = query, Variables = variables\<rparr>])
      | LinearReplied status body \<Rightarrow>
          (if status \<noteq> 200 then Inl (LinearStatus status body)
           else (case jsonGraphQL rt body of
                   Inl err \<Rightarrow> Inl (Wrapped ''failed to parse response: '' err)
                 | Inr graphResp \<Rightarrow>
                     if length (Errors graphResp) > 0 then Inl (GraphQLErrors (Errors graphResp))
                     else Inr (Data graphResp)),
           tr @ [Requested \<lparr>Query = query, Variables = variables\<rparr>]))"

text \<open>
  The loop of fetchAllOpenIssues, which has no bound on its rounds: a partial function,
  \<open>None\<close> when the loop never ends.
  \<^verbatim>\<open>
  for {
      variables := map[string]interface{}{}
      if cursor != "" { variables["cursor"] = cursor }
      resp, err := executeGraphQL(query, variables)
      if err != nil { return nil, err }
      var issuesResp IssuesResponse
      if err := json.Unmarshal(resp, &issuesResp); err != nil {
          return nil, fmt.Errorf("failed to parse issues response: %w", err)
      }
      allIssues = append(allIssues, issuesResp.Issues.Nodes...)
      if !issuesResp.Issues.PageInfo.HasNextPage { break }
      cursor = issuesResp.Issues.PageInfo.EndCursor
  }
  return allIssues, nil
  \<close>
\<close>

definition cursorVariables :: "string \<Rightarrow> (string \<times> string) list" where
  "cursorVariables cursor = (if cursor \<noteq> [] then [(''cursor'', cursor)] else [])"

partial_function (option) fetchLoop :: "Runtime \<Rightarrow> string \<Rightarrow> Issue list \<Rightarrow> event list \<Rightarrow> ((error + Issue list) \<times> event list) option" where
  "fetchLoop rt cursor allIssues tr =
     (case executeGraphQL rt issuesQuery (cursorVariables cursor) tr of
        (Inl err, tr') \<Rightarrow> Some (Inl err, tr')
      | (Inr resp, tr') \<Rightarrow>
          (case jsonIssues rt resp of
             Inl err \<Rightarrow> Some (Inl (Wrapped ''failed to parse issues response: '' err), tr')
           | Inr issuesResp \<Rightarrow>
               if \<not> HasNextPage (PageInfo issuesResp)
               then Some (Inr (allIssues @ Nodes issuesResp), tr')
               else fetchLoop rt (EndCursor (PageInfo issuesResp))
                      (allIssues @ Nodes issuesResp) tr'))"

definition fetchAllOpenIssues :: "Runtime \<Rightarrow> event list \<Rightarrow> ((error + Issue list) \<times> event list) option" where
  "fetchAllOpenIssues rt tr = fetchLoop rt [] [] tr"

subsection \<open>The daily digest\<close>

definition sendNoIssuesReport :: "Runtime \<Rightarrow> event list \<Rightarrow> error option \<times> event list" where
  "sendNoIssuesReport rt tr =
     sendToDiscord rt
       \<lparr>DW_Content = [], DW_Username = ''Linear Daily Digest'', DW_AvatarURL = linearAvatarURL,
        DW_Embeds =
          [\<lparr>Embed_Title = [CHR 0xC3, CHR 0xB0, CHR 0xC5, CHR 0xB8, CHR 0xE2, CHR 0x80, CHR 0x9C, CHR 0xC5, CHR 0xA0] @ '' Linear Daily Digest'',
            Embed_Description = ''No open issues found. Great job keeping the backlog clean! '' @ [CHR 0xC3, CHR 0xB0, CHR 0xC5, CHR 0xB8, CHR 0xC5, CHR 0xBD, CHR 0xE2, CHR 0x80, CHR 0xB0],
            Embed_URL = [],
            Embed_Color = ColorGreen,
            Embed_Timestamp = timeNowRFC3339 rt,
            Embed_Footer = Some \<lparr>Footer_Text = ''Linear Daily Digest'', Footer_IconURL = []\<rparr>,
            Embed_Author = None,
            Embed_Fields = []\<rparr>]\<rparr>
       tr"

text \<open>
  The loop over the issues of priority at most 2, at most ten of them:
  \<^verbatim>\<open>
  if issue.Priority <= 2 && count < 10 {
      emoji := ...; if issue.Priority == 2 { emoji = ... }
      assignee := "Unassigned"
      if issue.Assignee != nil { assignee = issue.Assignee.Name }
      priorityIssues = append(priorityIssues, fmt.Sprintf("%s [**%s**](%s) - %s (%s)",
          emoji, issue.Identifier, issue.URL, truncate(issue.Title, 40), assignee))
      count++
  }
  \<close>
\<close>

fun priorityLoop :: "Issue list \<Rightarrow> nat \<Rightarrow> string list \<Rightarrow> panic + string list" where
  "priorityLoop [] cnt priorityIssues = Inr priorityIssues"
| "priorityLoop (issue # rest) cnt priorityIssues =
     (if Issue_Priority issue \<le> 2 \<and> cnt < 10
      then thenP (truncate (Issue_Title issue) 40) (\<lambda>t.
             priorityLoop rest (cnt + 1)
               (priorityIssues @
                [(if Issue_Priority issue = 2 then [CHR 0xC3, CHR 0xB0, CHR 0xC5, CHR 0xB8, CHR 0xC5, CHR 0xB8, CHR 0xC2, CHR 0xA0] else [CHR 0xC3, CHR 0xB0, CHR 0xC5, CHR 0xB8, CHR 0xE2, CHR 0x80, CHR 0x9D, CHR 0xC2, CHR 0xB4]) @ '' [**'' @ Issue_Identifier issue @ ''**]('' @ Issue_URL issue @ '') - '' @ t @ '' ('' @ (case Issue_Assignee issue of Some u \<Rightarrow> User_Name u | None \<Rightarrow> ''Unassigned'') @ '')'']))
      else priorityLoop rest cnt priorityIssues)"

text \<open>
  The loop over the issues updated after the start of the day, at most five of them:
  \<^verbatim>\<open>
  if issue.UpdatedAt.After(today) && len(recentIssues) < 5 {
      recentIssues = append(recentIssues, fmt.Sprintf("... [**%s**](%s) - %s",
          issue.Identifier, issue.URL, truncate(issue.Title, 50)))
  }
  \<close>
\<close>

fun recentLoop :: "int \<Rightarrow> Issue list \<Rightarrow> string list \<Rightarrow> panic + string list" where
  "recentLoop today [] recentIssues = Inr recentIssues"
| "recentLoop today (issue # rest) recentIssues =
     (if Issue_UpdatedAt issue > today \<and> length recentIssues < 5
      then thenP (truncate (Issue_Title issue) 50) (\<lambda>t.
             recentLoop today rest
               (recentIssues @ [[CHR 0xC3, CHR 0xA2, CHR 0xE2, CHR 0x82, CHR 0xAC, CHR 0xC2, CHR 0xA2] @ '' [**'' @ Issue_Identifier issue @ ''**]('' @ Issue_URL issue @ '') - '' @ t]))
      else recentLoop today rest recentIssues)"

text \<open>\<open>time.Now().Truncate(24 * time.Hour)\<close>: the instant rounded down to a multiple of a day.\<close>

definition startOfDay :: "int \<Rightarrow> int" where
  "startOfDay now = now - now mod (24 * 3600 * 1000000000)"

text \<open>
  \<^verbatim>\<open>
  func sendReport(issues []Issue, byStatus []StatusGroup, byAssignee []AssigneeGroup) error
  \<close>
\<close>

definition sendReport :: "Runtime \<Rightarrow> Issue list \<Rightarrow> StatusGroup list \<Rightarrow> AssigneeGroup list \<Rightarrow> event list \<Rightarrow> panic + (error option \<times> event list)" where
  "sendReport rt issues byStatus byAssignee tr =
     (let urgentCount = length (filter (\<lambda>issue. Issue_Priority issue = 1) issues);
          highCount = length (filter (\<lambda>issue. Issue_Priority issue \<noteq> 1 \<and> Issue_Priority issue = 2) issues);
          statusLines =
            map (\<lambda>g. getStateEmoji (SG_Type g) @ '' **'' @ SG_Name g @ ''**: '' @ showInt (int (length (SG_Issues g))))
              byStatus;
          assigneeLines =
            map (\<lambda>g. (if AG_Name g = ''Unassigned'' then [CHR 0xC3, CHR 0xA2, CHR 0xE2, CHR 0x80, CHR 0x9C] else [CHR 0xC3, CHR 0xB0, CHR 0xC5, CHR 0xB8, CHR 0xE2, CHR 0x80, CHR 0x98, CHR 0xC2, CHR 0xA4]) @ '' **'' @ AG_Name g @ ''**: '' @ showInt (int (length (AG_Issues g))))
              byAssignee;
          priorityAlerts =
            (if urgentCount > 0 then [[CHR 0xC3, CHR 0xB0, CHR 0xC5, CHR 0xB8, CHR 0xE2, CHR 0x80, CHR 0x9D, CHR 0xC2, CHR 0xB4] @ '' **'' @ showInt (int urgentCount) @ '' Urgent**''] else [])
            @ (if highCount > 0 then [[CHR 0xC3, CHR 0xB0, CHR 0xC5, CHR 0xB8, CHR 0xC5, CHR 0xB8, CHR 0xC2, CHR 0xA0] @ '' **'' @ showInt (int highCount) @ '' High Priority**''] else []);
          summaryParts =
            [''**'' @ showInt (int (length issues)) @ ''** open issues across your workspace'']
            @ (if length priorityAlerts > 0 then [stringsJoin priorityAlerts '' | ''] else []);
          mainEmbed =
            \<lparr>Embed_Title = [CHR 0xC3, CHR 0xB0, CHR 0xC5, CHR 0xB8, CHR 0xE2, CHR 0x80, CHR 0x9C, CHR 0xC5, CHR 0xA0] @ '' Linear Daily Digest'',
             Embed_Description = stringsJoin summaryParts [CHR 0x0A],
             Embed_URL = [],
             Embed_Color = ColorBlue,
             Embed_Timestamp = timeNowRFC3339 rt,
             Embed_Footer =
               Some \<lparr>Footer_Text = ''Total: '' @ showInt (int (length issues)) @ '' open issues '' @ [CHR 0xC3, CHR 0xA2, CHR 0xE2, CHR 0x82, CHR 0xAC, CHR 0xC2, CHR 0xA2] @ '' Generated at'',
                     Footer_IconURL = []\<rparr>,
             Embed_Author = None,
             Embed_Fields =
               [\<lparr>Field_Name = [CHR 0xC3, CHR 0xB0, CHR 0xC5, CHR 0xB8, CHR 0xE2, CHR 0x80, CHR 0x9C, CHR 0xE2, CHR 0x80, CHR 0xB9] @ '' By Status'', Field_Value = stringsJoin statusLines [CHR 0x0A],
                 Field_Inline = True\<rparr>,
                \<lparr>Field_Name = [CHR 0xC3, CHR 0xB0, CHR 0xC5, CHR 0xB8, CHR 0xE2, CHR 0x80, CHR 0x98, CHR 0xC2, CHR 0xA5] @ '' By Assignee'', Field_Value = stringsJoin assigneeLines [CHR 0x0A],
                 Field_Inline = True\<rparr>]\<rparr>
      in thenP (if urgentCount > 0 \<or> highCount > 0 then priorityLoop issues 0 [] else Inr [])
           (\<lambda>priorityIssues.
         thenP (recentLoop (startOfDay (timeNow rt)) issues [])
           (\<lambda>recentIssues.
         Inr (sendToDiscord rt
           \<lparr>DW_Content = [], DW_Username = ''Linear Daily Digest'', DW_AvatarURL = linearAvatarURL,
            DW_Embeds =
              [mainEmbed]
              @ (if length priorityIssues > 0
                 then [\<lparr>Embed_Title = [CHR 0xC3, CHR 0xB0, CHR 0xC5, CHR 0xB8, CHR 0xC5, CHR 0xA1, CHR 0xC2, CHR 0xA8] @ '' Priority Issues'',
                        Embed_Description = stringsJoin priorityIssues [CHR 0x0A],
                        Embed_URL = [], Embed_Color = ColorRed, Embed_Timestamp = [],
                        Embed_Footer = None, Embed_Author = None, Embed_Fields = []\<rparr>]
                 else [])
              @ (if length recentIssues > 0
                 then [\<lparr>Embed_Title = [CHR 0xC3, CHR 0xB0, CHR 0xC5, CHR 0xB8, CHR 0xE2, CHR 0x80, CHR 0x9D, CHR 0xE2, CHR 0x80, CHR 0x9E] @ '' Recently Updated'',
                        Embed_Description = stringsJoin recentIssues [CHR 0x0A],
                        Embed_URL = [], Embed_Color = ColorYellow, Embed_Timestamp = [],
                        Embed_Footer = None, Embed_Author = None, Embed_Fields = []\<rparr>]
                 else [])\<rparr>
           tr))))"

text \<open>
  generateAndSendReport. The arguments \<open>byStatus\<close> and \<open>byAssignee\<close> give the results of
  the calls \<open>groupByStatus(issues)\<close> and \<open>groupByAssignee(issues)\<close> in this run, which the
  order of the map and the sort leave open. The result is \<open>None\<close> when the fetch loop
  never ends.
\<close>

definition generateAndSendReport :: "Runtime \<Rightarrow> (Issue list \<Rightarrow> StatusGroup list) \<Rightarrow> (Issue list \<Rightarrow> AssigneeGroup list) \<Rightarrow> event list \<Rightarrow> (panic + (error option \<times> event list)) option" where
  "generateAndSendReport rt byStatus byAssignee tr =
     (case fetchAllOpenIssues rt tr of
        None \<Rightarrow> None
      | Some (Inl err, tr') \<Rightarrow> Some (Inr (Some (Wrapped ''failed to fetch issues: '' err), tr'))
      | Some (Inr issues, tr') \<Rightarrow>
          Some (if length issues = 0 then Inr (sendNoIssuesReport rt tr')
                else sendReport rt issues (byStatus issues) (byAssignee issues) tr'))"

text \<open>\<open>err.Error()\<close>: the text of an error.\<close>

fun errorText :: "error \<Rightarrow> string" where
  "errorText (LibError s) = s"
| "errorText (Wrapped prefix err) = prefix @ errorText err"
| "errorText (DiscordStatus status body) = ''discord returned status '' @ showInt status @ '': '' @ body"
| "errorText (LinearStatus status body) = ''linear API returned status '' @ showInt status @ '': '' @ body"
| "errorText (GraphQLErrors errs) =
     ''GraphQL errors: '' @ ''['' @ stringsJoin (map (\<lambda>m. ''{'' @ m @ ''}'') errs) '' '' @ '']''"

text \<open>
  The handler of \<open>/report\<close>.
  \<^verbatim>\<open>
  if linearAPIKey == "" { http.Error(w, "LINEAR_API_KEY not configured", 503); return }
  if err := generateAndSendReport(); err != nil { http.Error(w, err.Error(), 500); return }
  json.NewEncoder(w).Encode(map[string]string{"status": "report_sent"})
  \<close>
\<close>

definition handleReport :: "Runtime \<Rightarrow> (Issue list \<Rightarrow> StatusGroup list) \<Rightarrow> (Issue list \<Rightarrow> AssigneeGroup list) \<Rightarrow> event list \<Rightarrow> (panic + (HttpResponse \<times> event list)) option" where
  "handleReport rt byStatus byAssignee tr =
     (if linearAPIKey rt = [] then Some (Inr (httpError ''LINEAR_API_KEY not configured'' 503, tr))
      else case generateAndSendReport rt byStatus byAssignee tr of
        None \<Rightarrow> None
      | Some (Inl p) \<Rightarrow> Some (Inl p)
      | Some (Inr (Some err, tr')) \<Rightarrow> Some (Inr (httpError (errorText err) 500, tr'))
      | Some (Inr (None, tr')) \<Rightarrow> Some (Inr (jsonStatus ''report_sent'', tr')))"

subsection \<open>The report by user\<close>

text \<open>
  The lines of one assignee group:
  \<^verbatim>\<open>
  for i, issue := range group.Issues {
      if i >= 15 {
          taskLines = append(taskLines, fmt.Sprintf("*... and %d more*", len(group.Issues)-15))
          break
      }
      priorityEmoji := getPriorityEmoji(issue.Priority)
      taskLines = append(taskLines, fmt.Sprintf("%s [%s](%s) - %s",
          priorityEmoji, issue.Identifier, issue.URL, truncate(issue.Title, 50)))
  }
  \<close>
  \<open>taskLinesLoop i rest n taskLines\<close> is the loop at index \<open>i\<close> with the issues \<open>rest\<close>
  still to visit, \<open>n\<close> the length of the whole slice.
\<close>

fun taskLinesLoop :: "nat \<Rightarrow> Issue list \<Rightarrow> nat \<Rightarrow> string list \<Rightarrow> panic + string list" where
  "taskLinesLoop i [] n taskLines = Inr taskLines"
| "taskLinesLoop i (issue # rest) n taskLines =
     (if i \<ge> 15
      then Inr (taskLines @ [''*... and '' @ showInt (int n - 15) @ '' more*''])
      else thenP (truncate (Issue_Title issue) 50) (\<lambda>t.
             taskLinesLoop (Suc i) rest n
               (taskLines @
                [getPriorityEmoji (Issue_Priority issue) @ '' ['' @ Issue_Identifier issue @ '']('' @ Issue_URL issue @ '') - '' @ t])))"

definition userTaskLines :: "Issue list \<Rightarrow> panic + string list" where
  "userTaskLines issues = taskLinesLoop 0 issues (length issues) []"

definition taskReportPayload :: "DiscordEmbed list \<Rightarrow> DiscordWebhook" where
  "taskReportPayload embeds =
     \<lparr>DW_Content = [], DW_Username = ''Linear Task Report'', DW_AvatarURL = linearAvatarURL,
      DW_Embeds = embeds\<rparr>"

text \<open>
  The loop over the assignee groups:
  \<^verbatim>\<open>
  for _, group := range byAssignee {
      ... taskLines ...
      embeds = append(embeds, DiscordEmbed{
          Title: fmt.Sprintf("%s %s (%d tasks)", emoji, group.Name, len(group.Issues)),
          Description: strings.Join(taskLines, "\n"), Color: ColorGray})
      if len(embeds) >= 10 {
          if err := sendToDiscord(...embeds...); err != nil { return err }
          embeds = nil
          time.Sleep(500 * time.Millisecond)
      }
  }
  \<close>
  \<open>userEmbed\<close> is the embed of a group. The result of the loop is a panic, or the error of the early return (\<open>None\<close> when the loop ran to
  its end), the embeds not yet sent, and the events.
\<close>

definition userEmbed :: "AssigneeGroup \<Rightarrow> string list \<Rightarrow> DiscordEmbed" where
  "userEmbed g taskLines =
     \<lparr>Embed_Title = (if AG_Name g = ''Unassigned'' then [CHR 0xC3, CHR 0xA2, CHR 0xE2, CHR 0x80, CHR 0x9C] else [CHR 0xC3, CHR 0xB0, CHR 0xC5, CHR 0xB8, CHR 0xE2, CHR 0x80, CHR 0x98, CHR 0xC2, CHR 0xA4]) @ '' '' @ AG_Name g @ '' ('' @ showInt (int (length (AG_Issues g))) @ '' tasks)'',
      Embed_Description = stringsJoin taskLines [CHR 0x0A],
      Embed_URL = [], Embed_Color = ColorGray, Embed_Timestamp = [],
      Embed_Footer = None, Embed_Author = None, Embed_Fields = []\<rparr>"

fun userEmbedsLoop :: "Runtime \<Rightarrow> AssigneeGroup list \<Rightarrow> DiscordEmbed list \<Rightarrow> event list \<Rightarrow> panic + (error option \<times> DiscordEmbed list \<times> event list)" where
  "userEmbedsLoop rt [] embeds tr = Inr (None, embeds, tr)"
| "userEmbedsLoop rt (g # rest) embeds tr =
     thenP (userTaskLines (AG_Issues g)) (\<lambda>taskLines.
       if length (embeds @ [userEmbed g taskLines]) \<ge> 10
       then (case sendToDiscord rt (taskReportPayload (embeds @ [userEmbed g taskLines])) tr of
               (Some err, tr') \<Rightarrow> Inr (Some err, [], tr')
             | (None, tr') \<Rightarrow> userEmbedsLoop rt rest [] (tr' @ [Slept 500]))
       else userEmbedsLoop rt rest (embeds @ [userEmbed g taskLines]) tr)"

text \<open>
  The part of generateUserTasksReport after the call of groupByAssignee: the header embed,
  the loop, and the delivery of the embeds that remain.
\<close>

definition headerEmbed :: "Runtime \<Rightarrow> Issue list \<Rightarrow> AssigneeGroup list \<Rightarrow> DiscordEmbed" where
  "headerEmbed rt issues byAssignee =
     \<lparr>Embed_Title = [CHR 0xC3, CHR 0xB0, CHR 0xC5, CHR 0xB8, CHR 0xE2, CHR 0x80, CHR 0x9C, CHR 0xE2, CHR 0x80, CHR 0xB9] @ '' Open Tasks by User'',
     Embed_Description =
       ''**'' @ showInt (int (length issues)) @ ''** open tasks across **'' @ showInt (int (length byAssignee)) @ ''** assignees'',
     Embed_URL = [], Embed_Color = ColorBlue,
     Embed_Timestamp = timeNowRFC3339 rt,
     Embed_Footer = None, Embed_Author = None, Embed_Fields = []\<rparr>"

definition sendUserTasks :: "Runtime \<Rightarrow> Issue list \<Rightarrow> AssigneeGroup list \<Rightarrow> event list \<Rightarrow> panic + (error option \<times> event list)" where
  "sendUserTasks rt issues byAssignee tr =
     thenP (userEmbedsLoop rt byAssignee
              [headerEmbed rt issues byAssignee]
              tr)
       (\<lambda>(early, embeds, tr').
          case early of
            Some err \<Rightarrow> Inr (Some err, tr')
          | None \<Rightarrow>
              if length embeds > 0 then Inr (sendToDiscord rt (taskReportPayload embeds) tr')
              else Inr (None, tr'))"

definition generateUserTasksReport :: "Runtime \<Rightarrow> (Issue list \<Rightarrow> AssigneeGroup list) \<Rightarrow> event list \<Rightarrow> (panic + (error option \<times> event list)) option" where
  "generateUserTasksReport rt byAssignee tr =
     (case fetchAllOpenIssues rt tr of
        None \<Rightarrow> None
      | Some (Inl err, tr') \<Rightarrow> Some (Inr (Some (Wrapped ''failed to fetch issues: '' err), tr'))
      | Some (Inr issues, tr') \<Rightarrow>
          Some (if length issues = 0 then Inr (sendNoIssuesReport rt tr')
                else sendUserTasks rt issues (byAssignee issues) tr'))"

definition handleReportByUser :: "Runtime \<Rightarrow> (Issue list \<Rightarrow> AssigneeGroup list) \<Rightarrow> event list \<Rightarrow> (panic + (HttpResponse \<times> event list)) option" where
  "handleReportByUser rt byAssignee tr =
     (if linearAPIKey rt = [] then Some (Inr (httpError ''LINEAR_API_KEY not configured'' 503, tr))
      else case generateUserTasksReport rt byAssignee tr of
        None \<Rightarrow> None
      | Some (Inl p) \<Rightarrow> Some (Inl p)
      | Some (Inr (Some err, tr')) \<Rightarrow> Some (Inr (httpError (errorText err) 500, tr'))
      | Some (Inr (None, tr')) \<Rightarrow> Some (Inr (jsonStatus ''user_report_sent'', tr')))"

subsection \<open>Closed forms of the grouping loops\<close>

text \<open>
  What the first loop of groupByStatus leaves in the map under the state name \<open>k\<close>, and
  what the first loop of groupByAssignee leaves under the name \<open>k\<close>. The lemmas
  \<open>statusGroups_lookup\<close> and \<open>assigneeGroups_lookup\<close> prove that the loops compute them.
\<close>

definition statusGroupOf :: "Issue list \<Rightarrow> string \<Rightarrow> StatusGroup" where
  "statusGroupOf issues k =
     \<lparr>SG_Name = k,
      SG_Type = State_Type (Issue_State (hd (filter (\<lambda>i. statusKey i = k) issues))),
      SG_Color = State_Color (Issue_State (hd (filter (\<lambda>i. statusKey i = k) issues))),
      SG_Issues = filter (\<lambda>i. statusKey i = k) issues\<rparr>"

definition assigneeGroupOf :: "Issue list \<Rightarrow> string \<Rightarrow> AssigneeGroup" where
  "assigneeGroupOf issues k =
     \<lparr>AG_Name = k, AG_Issues = filter (\<lambda>i. assigneeName i = k) issues\<rparr>"

subsection \<open>Sample data\<close>

text \<open>Issues and users for the concrete runs below; the fields not named are fixed.\<close>

definition sampleUser :: "string \<Rightarrow> string \<Rightarrow> User" where
  "sampleUser name displayName =
     \<lparr>User_ID = name, User_Name = name, User_DisplayName = displayName, User_Email = []\<rparr>"

definition sampleIssue :: "string \<Rightarrow> string \<Rightarrow> string \<Rightarrow> User option \<Rightarrow> Issue" where
  "sampleIssue ident stateName stateType assignee =
     \<lparr>Issue_ID = ident, Issue_Identifier = ident, Issue_Title = ''Fix '' @ ident,
      Issue_Description = [], Issue_Priority = 3, Issue_PriorityLabel = ''Medium'',
      Issue_URL = ''https://linear.app/issue/'' @ ident,
      Issue_CreatedAt = 0, Issue_UpdatedAt = 0,
      Issue_State = \<lparr>State_ID = stateName, State_Name = stateName,
                       State_Color = ''#5e6ad2'', State_Type = stateType\<rparr>,
      Issue_Assignee = assignee,
      Issue_Team = \<lparr>Team_ID = ''t1'', Team_Name = ''Backend'', Team_Key = ''SCE''\<rparr>,
      Issue_Labels = []\<rparr>"

definition statusSample :: "Issue list" where
  "statusSample =
     [sampleIssue ''SCE-1'' ''Backlog'' ''backlog'' None,
      sampleIssue ''SCE-2'' ''Triage'' ''triage'' None,
      sampleIssue ''SCE-3'' ''In Progress'' ''started'' None,
      sampleIssue ''SCE-4'' ''Todo'' ''unstarted'' None,
      sampleIssue ''SCE-5'' ''In Progress'' ''started'' None]"

definition assigneeSample :: "Issue list" where
  "assigneeSample =
     [sampleIssue ''SCE-1'' ''Todo'' ''unstarted'' None,
      sampleIssue ''SCE-2'' ''Todo'' ''unstarted'' (Some (sampleUser ''john'' ''John'')),
      sampleIssue ''SCE-3'' ''Todo'' ''unstarted'' None,
      sampleIssue ''SCE-4'' ''Todo'' ''unstarted'' (Some (sampleUser ''jane'' [])),
      sampleIssue ''SCE-5'' ''Todo'' ''unstarted'' None,
      sampleIssue ''SCE-6'' ''Todo'' ''unstarted'' (Some (sampleUser ''jane'' []))]"

subsection \<open>Closed forms of truncate and of the task lines\<close>

text \<open>
  \<open>valueOr d r\<close> reads a result that may be a panic. \<open>shortened s n\<close> is what truncate
  returns for a budget of at least 3, and \<open>taskLine\<close> the line of an issue in the report
  by user; \<open>truncate_total\<close> and \<open>taskLinesLoop_eq\<close> prove it. \<open>issues23\<close> are 23 issues
  of one assignee group.
\<close>

definition valueOr :: "'a \<Rightarrow> panic + 'a \<Rightarrow> 'a" where
  "valueOr d r = (case r of Inl p \<Rightarrow> d | Inr x \<Rightarrow> x)"

definition shortened :: "string \<Rightarrow> nat \<Rightarrow> string" where
  "shortened s n = (if length s \<le> n then s else take (n - 3) s @ ''...'')"

definition taskLine :: "Issue \<Rightarrow> string" where
  "taskLine issue =
     getPriorityEmoji (Issue_Priority issue) @ '' ['' @ Issue_Identifier issue @ '']('' @
     Issue_URL issue @ '') - '' @ shortened (Issue_Title issue) 50"

definition issues23 :: "Issue list" where
  "issues23 = map (\<lambda>k. sampleIssue (''SCE-'' @ showNat k) ''Todo'' ''unstarted'' None) [1..<24]"

subsection \<open>A runtime for the concrete runs\<close>

text \<open>The embeds of the payload that a transformer returns, none when it returns no payload.\<close>

definition payloadEmbeds :: "panic + (error + DiscordWebhook option) \<Rightarrow> DiscordEmbed list" where
  "payloadEmbeds r = (case r of Inr (Inr (Some payload)) \<Rightarrow> DW_Embeds payload | _ \<Rightarrow> [])"

text \<open>
  A runtime for the concrete runs. Its decoder of the request body takes the text of the
  body as the type of a \<open>create\<close> event; its decoders of the event data return fixed
  payloads, the issue being the one of the test request of the README. Discord accepts
  every delivery. Linear serves two pages of issues: the first to the request without a
  cursor, the second and last to a request with a cursor.
\<close>

definition sampleEvent :: "string \<Rightarrow> string \<Rightarrow> LinearWebhook" where
  "sampleEvent ty action =
     \<lparr>WH_Action = action, WH_Actor = Some (sampleUser ''Test User'' []), WH_CreatedAt = [],
      WH_Data = ''{}'', WH_Type = ty, WH_URL = [], WH_UpdatedFrom = [], WH_WebhookID = [],
      WH_WebhookTS = 0\<rparr>"

definition samplePage :: "string \<Rightarrow> IssuesResponse" where
  "samplePage dat =
     (if dat = ''1''
      then \<lparr>Nodes = [sampleIssue ''SCE-1'' ''Todo'' ''unstarted'' None,
                     sampleIssue ''SCE-2'' ''Todo'' ''unstarted'' None],
            PageInfo = \<lparr>HasNextPage = True, EndCursor = ''c1''\<rparr>\<rparr>
      else \<lparr>Nodes = [sampleIssue ''SCE-3'' ''Backlog'' ''backlog'' None],
            PageInfo = \<lparr>HasNextPage = False, EndCursor = ''c2''\<rparr>\<rparr>)"

definition sampleRuntime :: Runtime where
  "sampleRuntime =
     \<lparr>jsonWebhook = (\<lambda>body. Inr (sampleEvent body ''create'')),
      jsonIssue = (\<lambda>dat. Inr
        \<lparr>WI_ID = ''1'', WI_Identifier = ''TEST-1'', WI_Title = ''Test Issue'',
         WI_Description = [], WI_Priority = 2, WI_PriorityLabel = ''High'', WI_State = None,
         WI_Assignee = None, WI_Team = None, WI_Labels = [],
         WI_URL = ''https://linear.app/test''\<rparr>),
      jsonComment = (\<lambda>dat. Inr
        \<lparr>WC_ID = ''2'', WC_Body = ''Looks good'', WC_Issue = None, WC_User = None,
         WC_CreatedAt = [], WC_URL = ''https://linear.app/test#comment''\<rparr>),
      jsonProject = (\<lambda>dat. Inr
        \<lparr>WP_ID = ''3'', WP_Name = ''Relay'', WP_Description = [], WP_State = ''started'',
         WP_URL = ''https://linear.app/project''\<rparr>),
      jsonGraphQL = (\<lambda>body. Inr \<lparr>Data = body, Errors = []\<rparr>),
      jsonIssues = (\<lambda>dat. Inr (samplePage dat)),
      stringsTitle = (\<lambda>s. s),
      timeNowRFC3339 = ''2024-01-08T09:00:00Z'',
      timeNow = 0,
      discordPost = (\<lambda>tr payload. DiscordReplied 204 []),
      linearPost = (\<lambda>tr req. LinearReplied 200 (if Variables req = [] then ''1'' else ''2'')),
      linearAPIKey = ''lin_api_test''\<rparr>"

subsection \<open>Reading the events of a run\<close>

text \<open>
  The embed that the loop builds for a group, and the reading of the events of a run: a
  delivery with the number of its embeds, a delay in milliseconds, a request to Linear.
\<close>

definition groupEmbed :: "AssigneeGroup \<Rightarrow> DiscordEmbed" where
  "groupEmbed g = userEmbed g (valueOr [] (userTaskLines (AG_Issues g)))"

datatype mark = Delivered nat | Delay nat | Fetched

definition eventSummary :: "event list \<Rightarrow> mark list" where
  "eventSummary tr =
     map (\<lambda>e. case e of Posted payload \<Rightarrow> Delivered (length (DW_Embeds payload))
                     | Slept ms \<Rightarrow> Delay ms
                     | Requested q \<Rightarrow> Fetched) tr"

text \<open>Discord answers every delivery with a status from 200 to 299.\<close>

definition discordAccepts :: "Runtime \<Rightarrow> bool" where
  "discordAccepts rt \<longleftrightarrow>
     (\<forall>tr payload. \<exists>status body.
        discordPost rt tr payload = DiscordReplied status body \<and> 200 \<le> status \<and> status < 300)"

definition groups24 :: "AssigneeGroup list" where
  "groups24 =
     map (\<lambda>k. \<lparr>AG_Name = ''user'' @ showNat k,
                AG_Issues = [sampleIssue (''SCE-'' @ showNat k) ''Todo'' ''unstarted''
                               (Some (sampleUser (''user'' @ showNat k) []))]\<rparr>) [0..<24]"

subsection \<open>What Linear serves\<close>

text \<open>
  The request of the fetch loop for a cursor, and the page that Linear serves to it after
  the events \<open>tr\<close>: \<open>None\<close> when executeGraphQL returns an error or the reply does not
  decode.
\<close>

definition issuesRequest :: "string \<Rightarrow> GraphQLRequest" where
  "issuesRequest cursor = \<lparr>Query = issuesQuery, Variables = cursorVariables cursor\<rparr>"

definition pageReply :: "Runtime \<Rightarrow> event list \<Rightarrow> string \<Rightarrow> IssuesResponse option" where
  "pageReply rt tr cursor =
     (case executeGraphQL rt issuesQuery (cursorVariables cursor) tr of
        (Inl err, tr') \<Rightarrow> None
      | (Inr resp, tr') \<Rightarrow>
          (case jsonIssues rt resp of Inl err \<Rightarrow> None | Inr page \<Rightarrow> Some page))"

text \<open>
  \<open>served rt tr cursor pages\<close>: to a client that starts after the events \<open>tr\<close> with
  \<open>cursor\<close> and follows the end cursors, Linear serves the pages \<open>pages\<close> one after the
  other, every page but the last with \<open>hasNextPage\<close> and the last without.
  \<open>requestsFor cursor pages\<close> are the requests of that client.
\<close>

fun served :: "Runtime \<Rightarrow> event list \<Rightarrow> string \<Rightarrow> IssuesResponse list \<Rightarrow> bool" where
  "served rt tr cursor [] = False"
| "served rt tr cursor [page] =
     (pageReply rt tr cursor = Some page \<and> \<not> HasNextPage (PageInfo page))"
| "served rt tr cursor (page # nxt # rest) =
     (pageReply rt tr cursor = Some page \<and> HasNextPage (PageInfo page)
      \<and> served rt (tr @ [Requested (issuesRequest cursor)]) (EndCursor (PageInfo page))
            (nxt # rest))"

fun requestsFor :: "string \<Rightarrow> IssuesResponse list \<Rightarrow> event list" where
  "requestsFor cursor [] = []"
| "requestsFor cursor (page # rest) =
     Requested (issuesRequest cursor) # requestsFor (EndCursor (PageInfo page)) rest"

text \<open>Linear answers every request with a page that has \<open>hasNextPage\<close>.\<close>

definition endless :: "Runtime \<Rightarrow> bool" where
  "endless rt \<longleftrightarrow>
     (\<forall>tr cursor. \<exists>page. pageReply rt tr cursor = Some page \<and> HasNextPage (PageInfo page))"

definition endlessRuntime :: Runtime where
  "endlessRuntime = sampleRuntime\<lparr>jsonIssues := (\<lambda>dat. Inr (samplePage ''1''))\<rparr>"

section \<open>Properties of truncate\<close>

lemma wrap64_id: "int64 x \<Longrightarrow> wrap64 x = x"
  by (simp add: int64_def wrap64_def)

lemma truncate_short: "int (length s) \<le> n \<Longrightarrow> truncate s n = Inr s"
  by (simp add: truncate_def)

lemma truncate_long:
  assumes "3 \<le> n" and "n < 2 ^ 63" and "n < int (length s)"
  shows "truncate s n = Inr (take (nat (n - 3)) s @ ''...'')"
proof -
  have "int64 (n - 3)" using assms by (simp add: int64_def)
  then have "wrap64 (n - 3) = n - 3" by (rule wrap64_id)
  then show ?thesis using assms by (simp add: truncate_def)
qed

lemma truncate_long_length:
  assumes "3 \<le> n" and "n < int (length s)"
  shows "int (length (take (nat (n - 3)) s @ ''...'')) = n"
  using assms by (simp add: min_def)

text \<open>
  Claim C1. For a budget \<open>n\<close> of at least 3 (every budget of the program: 40, 50, 300
  and 500), truncate returns a string at or under the budget unchanged, returns the first
  \<open>n - 3\<close> bytes followed by the marker \<open>...\<close> for a longer string, and truncating the
  result again with the same budget changes nothing.
\<close>

theorem truncate_idempotent:
  assumes "3 \<le> n" and "n < 2 ^ 63"
  shows "(int (length s) \<le> n \<longrightarrow> truncate s n = Inr s)
       \<and> (n < int (length s) \<longrightarrow> truncate s n = Inr (take (nat (n - 3)) s @ ''...''))
       \<and> thenP (truncate s n) (\<lambda>t. truncate t n) = truncate s n"
proof (cases "int (length s) \<le> n")
  case True
  then show ?thesis by (simp add: truncate_short thenP_def)
next
  case False
  then have long: "n < int (length s)" by simp
  have t: "truncate s n = Inr (take (nat (n - 3)) s @ ''...'')"
    using assms long by (rule truncate_long)
  have "int (length (take (nat (n - 3)) s @ ''...'')) \<le> n"
    using truncate_long_length [OF assms(1) long] by simp
  then have "truncate (take (nat (n - 3)) s @ ''...'') n = Inr (take (nat (n - 3)) s @ ''...'')"
    by (rule truncate_short)
  with t long show ?thesis by (simp add: thenP_def)
qed

theorem truncate_idempotent_witness:
  "(3::int) \<le> 40 \<and> (40::int) < 2 ^ 63
   \<and> truncate ''Update the API documentation of the relay'' 40 = Inr ''Update the API documentation of the r...''
   \<and> thenP (truncate ''Update the API documentation of the relay'' 40) (\<lambda>t. truncate t 40)
       = Inr ''Update the API documentation of the r...''"
proof -
  have h1: "(3::int) \<le> 40" and h2: "(40::int) < 2 ^ 63" by simp_all
  note t = truncate_idempotent [OF h1 h2, of "''Update the API documentation of the relay''"]
  from t have a: "truncate ''Update the API documentation of the relay'' 40 = Inr ''Update the API documentation of the r...''"
    by simp
  from t have "thenP (truncate ''Update the API documentation of the relay'' 40) (\<lambda>t. truncate t 40)
      = truncate ''Update the API documentation of the relay'' 40"
    by blast
  with a show ?thesis by simp
qed

section \<open>Properties of the groupings\<close>

subsection \<open>What the grouping loops compute\<close>

lemma statusGroups_snoc: "statusGroups (xs @ [x]) = statusStep (statusGroups xs) x"
  by (simp add: statusGroups_def)

lemma statusGroups_lookup:
  "statusGroups xs k =
     (if k \<in> statusKey ` set xs then Some (statusGroupOf xs k) else None)"
proof (induction xs rule: rev_induct)
  case Nil
  then show ?case by (simp add: statusGroups_def)
next
  case (snoc x xs)
  have none: "filter (\<lambda>i. statusKey i = k) xs = []" if "k \<notin> statusKey ` set xs"
    using that by (auto simp: filter_empty_conv)
  have some: "filter (\<lambda>i. statusKey i = k) xs \<noteq> []" if "k \<in> statusKey ` set xs"
    using that by (auto simp: filter_empty_conv)
  show ?case
  proof (cases "statusKey x = k")
    case True
    then show ?thesis
      using snoc.IH none some
      by (cases "k \<in> statusKey ` set xs")
         (simp_all add: statusGroups_snoc statusStep_def Let_def statusKey_def statusGroupOf_def)
  next
    case False
    then show ?thesis
      using snoc.IH by (auto simp: statusGroups_snoc statusStep_def Let_def statusGroupOf_def)
  qed
qed

lemma assigneeGroups_snoc: "assigneeGroups (xs @ [x]) = assigneeStep (assigneeGroups xs) x"
  by (simp add: assigneeGroups_def)

lemma assigneeGroups_lookup:
  "assigneeGroups xs k =
     (if k \<in> assigneeName ` set xs then Some (assigneeGroupOf xs k) else None)"
proof (induction xs rule: rev_induct)
  case Nil
  then show ?case by (simp add: assigneeGroups_def)
next
  case (snoc x xs)
  have none: "filter (\<lambda>i. assigneeName i = k) xs = []" if "k \<notin> assigneeName ` set xs"
    using that by (auto simp: filter_empty_conv)
  show ?case
  proof (cases "assigneeName x = k")
    case True
    then show ?thesis
      using snoc.IH none
      by (cases "k \<in> assigneeName ` set xs")
         (simp_all add: assigneeGroups_snoc assigneeStep_def Let_def assigneeGroupOf_def)
  next
    case False
    then show ?thesis
      using snoc.IH by (auto simp: assigneeGroups_snoc assigneeStep_def Let_def assigneeGroupOf_def)
  qed
qed

lemma mset_concat_filter_keys:
  "distinct ks \<Longrightarrow>
   mset (concat (map (\<lambda>k. filter (\<lambda>i. f i = k) xs) ks)) = mset (filter (\<lambda>i. f i \<in> set ks) xs)"
proof (induction ks)
  case Nil
  then show ?case by simp
next
  case (Cons k ks)
  then have "k \<notin> set ks" and "distinct ks" by simp_all
  have "mset (filter (\<lambda>i. f i = k) xs) + mset (filter (\<lambda>i. f i \<in> set ks) xs)
        = mset (filter (\<lambda>i. f i \<in> set (k # ks)) xs)"
    using \<open>k \<notin> set ks\<close> by (induction xs) auto
  then show ?case using Cons.IH [OF \<open>distinct ks\<close>] by simp
qed

lemma insertBy_mset: "mset (insertBy lt x xs) = add_mset x (mset xs)"
  by (induction xs) auto

lemma insertionSort_mset: "mset (insertionSort lt xs) = mset xs"
  by (induction xs) (auto simp: insertBy_mset)

lemma insertBy_set: "set (insertBy lt x xs) = insert x (set xs)"
  by (induction xs) auto

lemma insertBy_sorted:
  assumes "strictWeakOrder lt" and "sorted_wrt (\<lambda>a b. \<not> lt b a) xs"
  shows "sorted_wrt (\<lambda>a b. \<not> lt b a) (insertBy lt x xs)"
  using assms(2)
proof (induction xs)
  case Nil
  then show ?case by simp
next
  case (Cons y ys)
  have asym: "\<And>a b. lt a b \<Longrightarrow> \<not> lt b a"
    using assms(1) unfolding strictWeakOrder_def by blast
  have ntrans: "\<And>a b c. \<not> lt a b \<Longrightarrow> \<not> lt b c \<Longrightarrow> \<not> lt a c"
    using assms(1) unfolding strictWeakOrder_def by blast
  show ?case
  proof (cases "lt x y")
    case True
    have "\<not> lt z x" if "z \<in> set ys" for z
    proof -
      have "\<not> lt z y" using Cons.prems that by simp
      moreover have "\<not> lt y x" using True asym by blast
      ultimately show ?thesis by (rule ntrans)
    qed
    then show ?thesis using True Cons.prems asym by auto
  next
    case False
    then show ?thesis using Cons by (auto simp: insertBy_set)
  qed
qed

lemma insertionSort_sorted:
  "strictWeakOrder lt \<Longrightarrow> sorted_wrt (\<lambda>a b. \<not> lt b a) (insertionSort lt xs)"
  by (induction xs) (auto intro: insertBy_sorted)

lemma insertionSort_sortSlice: "strictWeakOrder lt \<Longrightarrow> sortSlice lt xs (insertionSort lt xs)"
  by (simp add: sortSlice_def insertionSort_mset insertionSort_sorted)

lemma statusLess_swo: "strictWeakOrder statusLess"
  by (auto simp: strictWeakOrder_def statusLess_def)

lemma assigneeLess_swo: "strictWeakOrder assigneeLess"
  unfolding strictWeakOrder_def assigneeLess_def by (auto split: if_splits)


lemma mset_concat_cong:
  assumes "mset xs = mset ys"
  shows "mset (concat (map f xs)) = mset (concat (map f ys))"
proof -
  have "mset (concat (map f zs)) = sum_mset (image_mset (\<lambda>z. mset (f z)) (mset zs))" for zs
    by (induction zs) simp_all
  then show ?thesis using assms by simp
qed

lemma partition_by_key:
  assumes d: "distinct ks" and s: "set ks = f ` set xs"
    and m: "mset gs = mset (map G ks)"
    and mem: "\<And>k. members (G k) = filter (\<lambda>i. f i = k) xs"
    and nam: "\<And>k. name (G k) = k"
  shows "mset (concat (map members gs)) = mset xs"
    and "distinct (map name gs)"
    and "set (map name gs) = f ` set xs"
    and "\<forall>g\<in>set gs. members g = filter (\<lambda>i. f i = name g) xs"
    and "\<forall>i\<in>set xs. \<exists>!g. g \<in> set gs \<and> i \<in> set (members g)"
proof -
  have sets: "set gs = G ` set ks"
    using mset_eq_setD [OF m] by simp
  have "mset (concat (map members gs)) = mset (concat (map members (map G ks)))"
    using m by (rule mset_concat_cong)
  also have "\<dots> = mset (concat (map (\<lambda>k. filter (\<lambda>i. f i = k) xs) ks))"
    by (simp add: comp_def mem)
  also have "\<dots> = mset (filter (\<lambda>i. f i \<in> set ks) xs)"
    using d by (rule mset_concat_filter_keys)
  also have "\<dots> = mset xs"
    using s by simp
  finally show "mset (concat (map members gs)) = mset xs" .
  have names: "mset (map name gs) = mset ks"
  proof -
    have "mset (map name gs) = image_mset name (mset (map G ks))"
      using m by simp
    also have "\<dots> = mset (map (\<lambda>k. name (G k)) ks)"
      by (simp add: multiset.map_comp comp_def)
    finally show ?thesis by (simp add: nam)
  qed
  show "distinct (map name gs)"
    using mset_eq_imp_distinct_iff [OF names] d by simp
  show "set (map name gs) = f ` set xs"
    using mset_eq_setD [OF names] s by simp
  show all: "\<forall>g\<in>set gs. members g = filter (\<lambda>i. f i = name g) xs"
    using sets by (auto simp: mem nam)
  show "\<forall>i\<in>set xs. \<exists>!g. g \<in> set gs \<and> i \<in> set (members g)"
  proof
    fix i assume i: "i \<in> set xs"
    then have "f i \<in> set ks" using s by simp
    then have in_gs: "G (f i) \<in> set gs" using sets by simp
    have "i \<in> set (members (G (f i)))" using i by (simp add: mem)
    moreover have "g = G (f i)" if "g \<in> set gs" and "i \<in> set (members g)" for g
    proof -
      from \<open>g \<in> set gs\<close> have "g \<in> G ` set ks" by (simp only: sets)
      then obtain k where "g = G k" by blast
      then show ?thesis using \<open>i \<in> set (members g)\<close> by (simp add: mem)
    qed
    ultimately show "\<exists>!g. g \<in> set gs \<and> i \<in> set (members g)"
      using in_gs by blast
  qed
qed


lemma dom_statusGroups: "dom (statusGroups xs) = statusKey ` set xs"
  by (auto simp: dom_def statusGroups_lookup)

lemma dom_assigneeGroups: "dom (assigneeGroups xs) = assigneeName ` set xs"
  by (auto simp: dom_def assigneeGroups_lookup)

lemma groupByStatus_facts:
  assumes "groupByStatus ks issues result"
  shows "distinct ks" and "set ks = statusKey ` set issues"
    and "mset result = mset (map (statusGroupOf issues) ks)"
    and "sorted_wrt (\<lambda>a b. \<not> statusLess b a) result"
proof -
  show d: "distinct ks" and s: "set ks = statusKey ` set issues"
    using assms by (simp_all add: groupByStatus_def rangeOrder_def dom_statusGroups)
  have "rangeValues (statusGroups issues) ks = map (statusGroupOf issues) ks"
    using s by (simp add: rangeValues_def statusGroups_lookup)
  then show "mset result = mset (map (statusGroupOf issues) ks)"
    and "sorted_wrt (\<lambda>a b. \<not> statusLess b a) result"
    using assms by (simp_all add: groupByStatus_def sortSlice_def)
qed

lemma groupByAssignee_facts:
  assumes "groupByAssignee ks issues result"
  shows "distinct ks" and "set ks = assigneeName ` set issues"
    and "mset result = mset (map (assigneeGroupOf issues) ks)"
    and "sorted_wrt (\<lambda>a b. \<not> assigneeLess b a) result"
proof -
  show d: "distinct ks" and s: "set ks = assigneeName ` set issues"
    using assms by (simp_all add: groupByAssignee_def rangeOrder_def dom_assigneeGroups)
  have "rangeValues (assigneeGroups issues) ks = map (assigneeGroupOf issues) ks"
    using s by (simp add: rangeValues_def assigneeGroups_lookup)
  then show "mset result = mset (map (assigneeGroupOf issues) ks)"
    and "sorted_wrt (\<lambda>a b. \<not> assigneeLess b a) result"
    using assms by (simp_all add: groupByAssignee_def sortSlice_def)
qed

lemma groupByStatus_run_ok:
  "groupByStatus (remdups (map statusKey issues)) issues (groupByStatus_run issues)"
  by (simp add: groupByStatus_def groupByStatus_run_def rangeOrder_def dom_statusGroups
      insertionSort_sortSlice statusLess_swo)

lemma groupByAssignee_run_ok:
  "groupByAssignee (remdups (map assigneeName issues)) issues (groupByAssignee_run issues)"
  by (simp add: groupByAssignee_def groupByAssignee_run_def rangeOrder_def dom_assigneeGroups
      insertionSort_sortSlice assigneeLess_swo)


lemma assigneeName_cases:
  "assigneeName i =
     (case Issue_Assignee i of
        None \<Rightarrow> ''Unassigned''
      | Some u \<Rightarrow> if User_DisplayName u = [] then User_Name u else User_DisplayName u)"
  by (simp add: assigneeName_def split: option.splits)


subsection \<open>Runs on the sample data\<close>

lemma statusSample_run:
  "groupByStatus [''Todo'', ''Backlog'', ''Triage'', ''In Progress''] statusSample
     [statusGroupOf statusSample ''In Progress'', statusGroupOf statusSample ''Todo'',
      statusGroupOf statusSample ''Backlog'', statusGroupOf statusSample ''Triage'']"
  by (auto simp add: groupByStatus_def rangeOrder_def sortSlice_def rangeValues_def
      dom_statusGroups statusGroups_lookup statusSample_def sampleIssue_def statusKey_def
      statusLess_def getStatusPriority_def statusGroupOf_def)

lemma assigneeSample_run:
  "groupByAssignee [''Unassigned'', ''jane'', ''John''] assigneeSample
     [assigneeGroupOf assigneeSample ''jane'', assigneeGroupOf assigneeSample ''John'',
      assigneeGroupOf assigneeSample ''Unassigned'']"
  by (auto simp add: groupByAssignee_def rangeOrder_def sortSlice_def rangeValues_def
      dom_assigneeGroups assigneeGroups_lookup assigneeSample_def sampleIssue_def sampleUser_def
      assigneeName_def assigneeLess_def assigneeGroupOf_def)

lemma assigneeSample_sizes:
  "map (\<lambda>g. length (AG_Issues g))
     [assigneeGroupOf assigneeSample ''jane'', assigneeGroupOf assigneeSample ''John'',
      assigneeGroupOf assigneeSample ''Unassigned''] = [2, 1, 3]"
  by (simp add: assigneeSample_def sampleIssue_def sampleUser_def assigneeName_def
      assigneeGroupOf_def)

lemma statusSample_sizes:
  "map (\<lambda>g. length (SG_Issues g))
     [statusGroupOf statusSample ''In Progress'', statusGroupOf statusSample ''Todo'',
      statusGroupOf statusSample ''Backlog'', statusGroupOf statusSample ''Triage''] = [2, 1, 1, 1]"
  by (simp add: statusSample_def sampleIssue_def statusKey_def statusGroupOf_def)

lemma statusSample_types:
  "map SG_Type
     [statusGroupOf statusSample ''In Progress'', statusGroupOf statusSample ''Todo'',
      statusGroupOf statusSample ''Backlog'', statusGroupOf statusSample ''Triage'']
   = [''started'', ''unstarted'', ''backlog'', ''triage'']"
  by (simp add: statusSample_def sampleIssue_def statusKey_def statusGroupOf_def)


subsection \<open>Order of the status groups\<close>

text \<open>
  Claim C3. In every result of groupByStatus the groups are in the order of their bucket:
  type \<open>started\<close> has rank 1, \<open>unstarted\<close> rank 2, \<open>backlog\<close> rank 3 and every other
  type rank 4, and a group of lower rank stands before every group of higher rank. Groups
  of one rank stand in any order. This holds for every input, so for the inputs whose
  state types span the four buckets.
\<close>

theorem groupByStatus_bucket_order:
  assumes "groupByStatus ks issues result"
  shows "getStatusPriority ''started'' = 1 \<and> getStatusPriority ''unstarted'' = 2
       \<and> getStatusPriority ''backlog'' = 3
       \<and> (\<forall>t. t \<noteq> ''started'' \<and> t \<noteq> ''unstarted'' \<and> t \<noteq> ''backlog''
              \<longrightarrow> getStatusPriority t = 4)
       \<and> (\<forall>i j. i < length result \<and> j < length result
              \<and> getStatusPriority (SG_Type (result ! i)) < getStatusPriority (SG_Type (result ! j))
              \<longrightarrow> i < j)"
proof -
  have sorted: "sorted_wrt (\<lambda>a b. \<not> statusLess b a) result"
    using assms by (rule groupByStatus_facts(4))
  have "i < j"
    if "i < length result" and "j < length result"
      and lt: "getStatusPriority (SG_Type (result ! i)) < getStatusPriority (SG_Type (result ! j))"
    for i j
  proof (rule ccontr)
    assume "\<not> i < j"
    then have "j < i \<or> j = i" by arith
    then show False
    proof
      assume "j < i"
      then have "\<not> statusLess (result ! i) (result ! j)"
        using sorted_wrt_nth_less [OF sorted \<open>j < i\<close> \<open>i < length result\<close>] by simp
      then show False using lt by (simp add: statusLess_def)
    next
      assume "j = i"
      then show False using lt by simp
    qed
  qed
  then show ?thesis by (simp add: getStatusPriority_def)
qed



theorem groupByStatus_bucket_order_witness:
  "groupByStatus [''Todo'', ''Backlog'', ''Triage'', ''In Progress''] statusSample
     [statusGroupOf statusSample ''In Progress'', statusGroupOf statusSample ''Todo'',
      statusGroupOf statusSample ''Backlog'', statusGroupOf statusSample ''Triage'']
   \<and> getStatusPriority ''started'' < getStatusPriority ''triage''
   \<and> (0::nat) < 3"
proof -
  let ?r = "[statusGroupOf statusSample ''In Progress'', statusGroupOf statusSample ''Todo'',
      statusGroupOf statusSample ''Backlog'', statusGroupOf statusSample ''Triage'']"
  note run = statusSample_run
  note ord = groupByStatus_bucket_order [OF run]
  have t0: "SG_Type (?r ! 0) = ''started''" and t3: "SG_Type (?r ! 3) = ''triage''"
    using statusSample_types by simp_all
  have lt: "getStatusPriority ''started'' < getStatusPriority ''triage''"
    by (simp add: getStatusPriority_def)
  from ord have "\<forall>i j. i < length ?r \<and> j < length ?r
              \<and> getStatusPriority (SG_Type (?r ! i)) < getStatusPriority (SG_Type (?r ! j))
              \<longrightarrow> i < j"
    by (elim conjE)
  then have "0 < length ?r \<and> 3 < length ?r
              \<and> getStatusPriority (SG_Type (?r ! 0)) < getStatusPriority (SG_Type (?r ! 3))
              \<longrightarrow> (0::nat) < 3"
    by (elim allE)
  with run lt show ?thesis by simp
qed


subsection \<open>Order of the assignee groups\<close>

text \<open>
  Claim C2. For a non-empty list of issues, in every result of groupByAssignee the group
  named \<open>Unassigned\<close> is the last one whatever its size, any two other groups stand in
  descending order of their number of members, and every issue is in the group whose name
  is the display name of its assignee, the name of the assignee when the display name is
  empty, or \<open>Unassigned\<close> when the issue has no assignee.
\<close>

theorem groupByAssignee_order:
  assumes run: "groupByAssignee ks issues result" and nonempty: "issues \<noteq> []"
  shows "result \<noteq> []
       \<and> (\<forall>i<length result. AG_Name (result ! i) = ''Unassigned'' \<longrightarrow> Suc i = length result)
       \<and> (\<forall>i j. i < j \<and> j < length result
              \<and> AG_Name (result ! i) \<noteq> ''Unassigned'' \<and> AG_Name (result ! j) \<noteq> ''Unassigned''
              \<longrightarrow> length (AG_Issues (result ! j)) \<le> length (AG_Issues (result ! i)))
       \<and> (\<forall>issue\<in>set issues. \<exists>g\<in>set result. issue \<in> set (AG_Issues g)
              \<and> AG_Name g =
                  (case Issue_Assignee issue of
                     None \<Rightarrow> ''Unassigned''
                   | Some u \<Rightarrow> if User_DisplayName u = [] then User_Name u
                               else User_DisplayName u))"
proof -
  note facts = groupByAssignee_facts [OF run]
  have sorted: "sorted_wrt (\<lambda>a b. \<not> assigneeLess b a) result" by (rule facts(4))
  note pk = partition_by_key [OF facts(1) facts(2) facts(3), of AG_Issues AG_Name]
  have part1: "distinct (map AG_Name result)"
    using pk(2) by (simp add: assigneeGroupOf_def)
  have part2: "\<forall>g\<in>set result. AG_Issues g = filter (\<lambda>i. assigneeName i = AG_Name g) issues"
    using pk(4) by (simp add: assigneeGroupOf_def)
  have part3: "\<forall>i\<in>set issues. \<exists>!g. g \<in> set result \<and> i \<in> set (AG_Issues g)"
    using pk(5) by (simp add: assigneeGroupOf_def)
  obtain x where "x \<in> set issues"
    using nonempty by (cases issues) auto
  with part3 have "\<exists>!g. g \<in> set result \<and> x \<in> set (AG_Issues g)"
    by (rule bspec)
  then have "\<exists>g. g \<in> set result \<and> x \<in> set (AG_Issues g)"
    by (rule ex1_implies_ex)
  then obtain g0 where "g0 \<in> set result"
    by (elim exE conjE)
  then have c1: "result \<noteq> []" by auto
  have c2: "Suc i = length result"
    if i: "i < length result" and u: "AG_Name (result ! i) = ''Unassigned''" for i
  proof (rule ccontr)
    assume "Suc i \<noteq> length result"
    then have j: "Suc i < length result" using i by arith
    have "map AG_Name result ! Suc i \<noteq> map AG_Name result ! i"
      using nth_eq_iff_index_eq [OF part1, of "Suc i" i] i j by simp
    then have "AG_Name (result ! Suc i) \<noteq> AG_Name (result ! i)"
      using i j by simp
    then have "assigneeLess (result ! Suc i) (result ! i)"
      using u by (simp add: assigneeLess_def)
    moreover have "\<not> assigneeLess (result ! Suc i) (result ! i)"
      using sorted_wrt_nth_less [OF sorted _ j, of i] by simp
    ultimately show False by simp
  qed
  have c3: "length (AG_Issues (result ! j)) \<le> length (AG_Issues (result ! i))"
    if "i < j" and "j < length result"
      and "AG_Name (result ! i) \<noteq> ''Unassigned''" and "AG_Name (result ! j) \<noteq> ''Unassigned''"
    for i j
  proof -
    have "\<not> assigneeLess (result ! j) (result ! i)"
      using sorted_wrt_nth_less [OF sorted that(1) that(2)] by simp
    then show ?thesis using that(3) that(4) by (simp add: assigneeLess_def)
  qed
  have c4: "\<exists>g\<in>set result. issue \<in> set (AG_Issues g)
              \<and> AG_Name g =
                  (case Issue_Assignee issue of
                     None \<Rightarrow> ''Unassigned''
                   | Some u \<Rightarrow> if User_DisplayName u = [] then User_Name u
                               else User_DisplayName u)"
    if "issue \<in> set issues" for issue
  proof -
    from part3 that have "\<exists>!g. g \<in> set result \<and> issue \<in> set (AG_Issues g)"
      by (rule bspec)
    then have "\<exists>g. g \<in> set result \<and> issue \<in> set (AG_Issues g)"
      by (rule ex1_implies_ex)
    then obtain g where g: "g \<in> set result" "issue \<in> set (AG_Issues g)"
      by (elim exE conjE)
    have eq: "AG_Issues g = filter (\<lambda>i. assigneeName i = AG_Name g) issues"
      using part2 g(1) by (rule bspec)
    have "issue \<in> set (filter (\<lambda>i. assigneeName i = AG_Name g) issues)"
      using g(2) by (simp only: eq)
    then have "AG_Name g = assigneeName issue" by simp
    then have "AG_Name g =
                  (case Issue_Assignee issue of
                     None \<Rightarrow> ''Unassigned''
                   | Some u \<Rightarrow> if User_DisplayName u = [] then User_Name u
                               else User_DisplayName u)"
      by (simp only: assigneeName_cases)
    with g show ?thesis by blast
  qed
  show ?thesis
  proof (intro conjI)
    show "result \<noteq> []" by (rule c1)
    show "\<forall>i<length result. AG_Name (result ! i) = ''Unassigned'' \<longrightarrow> Suc i = length result"
    proof (intro allI impI)
      fix i assume "i < length result" and "AG_Name (result ! i) = ''Unassigned''"
      then show "Suc i = length result" by (rule c2)
    qed
    show "\<forall>i j. i < j \<and> j < length result
              \<and> AG_Name (result ! i) \<noteq> ''Unassigned'' \<and> AG_Name (result ! j) \<noteq> ''Unassigned''
              \<longrightarrow> length (AG_Issues (result ! j)) \<le> length (AG_Issues (result ! i))"
    proof (intro allI impI, elim conjE)
      fix i j
      assume "i < j" and "j < length result"
        and "AG_Name (result ! i) \<noteq> ''Unassigned''" and "AG_Name (result ! j) \<noteq> ''Unassigned''"
      then show "length (AG_Issues (result ! j)) \<le> length (AG_Issues (result ! i))" by (rule c3)
    qed
    show "\<forall>issue\<in>set issues. \<exists>g\<in>set result. issue \<in> set (AG_Issues g)
              \<and> AG_Name g =
                  (case Issue_Assignee issue of
                     None \<Rightarrow> ''Unassigned''
                   | Some u \<Rightarrow> if User_DisplayName u = [] then User_Name u
                               else User_DisplayName u)"
      using c4 by (rule ballI)
  qed
qed

theorem groupByAssignee_order_witness:
  "groupByAssignee [''Unassigned'', ''jane'', ''John''] assigneeSample
     [assigneeGroupOf assigneeSample ''jane'', assigneeGroupOf assigneeSample ''John'',
      assigneeGroupOf assigneeSample ''Unassigned'']
   \<and> assigneeSample \<noteq> []
   \<and> map (\<lambda>g. length (AG_Issues g))
     [assigneeGroupOf assigneeSample ''jane'', assigneeGroupOf assigneeSample ''John'',
      assigneeGroupOf assigneeSample ''Unassigned''] = [2, 1, 3]
   \<and> Suc 2 = length [assigneeGroupOf assigneeSample ''jane'', assigneeGroupOf assigneeSample ''John'',
      assigneeGroupOf assigneeSample ''Unassigned'']"
proof -
  let ?r = "[assigneeGroupOf assigneeSample ''jane'', assigneeGroupOf assigneeSample ''John'',
      assigneeGroupOf assigneeSample ''Unassigned'']"
  note run = assigneeSample_run
  have ne: "assigneeSample \<noteq> []" by (simp add: assigneeSample_def)
  note ord = groupByAssignee_order [OF run ne]
  from ord have "\<forall>i<length ?r. AG_Name (?r ! i) = ''Unassigned'' \<longrightarrow> Suc i = length ?r"
    by (elim conjE)
  then have "2 < length ?r \<longrightarrow> AG_Name (?r ! 2) = ''Unassigned'' \<longrightarrow> Suc 2 = length ?r"
    by (elim allE)
  moreover have "AG_Name (?r ! 2) = ''Unassigned''" by (simp add: assigneeGroupOf_def)
  ultimately have "Suc 2 = length ?r" by simp
  with run ne assigneeSample_sizes show ?thesis by simp
qed


subsection \<open>The groupings are partitions\<close>

text \<open>
  Claim C10. groupByStatus and groupByAssignee partition their input: the members of the
  groups together are the input issues (as multisets), every input issue is in exactly one
  group, the sizes of the groups add up to the length of the input, the members of a status
  group have the state name of the group, and the members of an assignee group have the
  name of the group as their key (display name, else name, else \<open>Unassigned\<close>).
\<close>

theorem grouping_partitions:
  "(groupByStatus ks issues sgs \<longrightarrow>
      mset (concat (map SG_Issues sgs)) = mset issues
      \<and> (\<forall>i\<in>set issues. \<exists>!g. g \<in> set sgs \<and> i \<in> set (SG_Issues g))
      \<and> sum_list (map (\<lambda>g. length (SG_Issues g)) sgs) = length issues
      \<and> (\<forall>g\<in>set sgs. \<forall>i\<in>set (SG_Issues g). State_Name (Issue_State i) = SG_Name g)
      \<and> distinct (map SG_Name sgs))
   \<and> (groupByAssignee ks' issues ags \<longrightarrow>
      mset (concat (map AG_Issues ags)) = mset issues
      \<and> (\<forall>i\<in>set issues. \<exists>!g. g \<in> set ags \<and> i \<in> set (AG_Issues g))
      \<and> sum_list (map (\<lambda>g. length (AG_Issues g)) ags) = length issues
      \<and> (\<forall>g\<in>set ags. \<forall>i\<in>set (AG_Issues g).
            AG_Name g = (case Issue_Assignee i of
                           None \<Rightarrow> ''Unassigned''
                         | Some u \<Rightarrow> if User_DisplayName u = [] then User_Name u
                                     else User_DisplayName u))
      \<and> distinct (map AG_Name ags))"
proof (intro conjI impI)
  assume run: "groupByStatus ks issues sgs"
  note facts = groupByStatus_facts [OF run]
  note part = partition_by_key [OF facts(1) facts(2) facts(3), of SG_Issues SG_Name]
  show m: "mset (concat (map SG_Issues sgs)) = mset issues"
    using part(1) by (simp add: statusGroupOf_def)
  show "\<forall>i\<in>set issues. \<exists>!g. g \<in> set sgs \<and> i \<in> set (SG_Issues g)"
    using part(5) by (simp add: statusGroupOf_def)
  have "length (concat (map SG_Issues sgs)) = length issues"
    using m by (rule mset_eq_length)
  then show "sum_list (map (\<lambda>g. length (SG_Issues g)) sgs) = length issues"
    by (simp add: length_concat comp_def)
  have "\<forall>g\<in>set sgs. SG_Issues g = filter (\<lambda>i. statusKey i = SG_Name g) issues"
    using part(4) by (simp add: statusGroupOf_def)
  then show "\<forall>g\<in>set sgs. \<forall>i\<in>set (SG_Issues g). State_Name (Issue_State i) = SG_Name g"
    by (simp add: statusKey_def)
  show "distinct (map SG_Name sgs)"
    using part(2) by (simp add: statusGroupOf_def)
next
  assume run: "groupByAssignee ks' issues ags"
  note facts = groupByAssignee_facts [OF run]
  note part = partition_by_key [OF facts(1) facts(2) facts(3), of AG_Issues AG_Name]
  show m: "mset (concat (map AG_Issues ags)) = mset issues"
    using part(1) by (simp add: assigneeGroupOf_def)
  show "\<forall>i\<in>set issues. \<exists>!g. g \<in> set ags \<and> i \<in> set (AG_Issues g)"
    using part(5) by (simp add: assigneeGroupOf_def)
  have "length (concat (map AG_Issues ags)) = length issues"
    using m by (rule mset_eq_length)
  then show "sum_list (map (\<lambda>g. length (AG_Issues g)) ags) = length issues"
    by (simp add: length_concat comp_def)
  have "\<forall>g\<in>set ags. AG_Issues g = filter (\<lambda>i. assigneeName i = AG_Name g) issues"
    using part(4) by (simp add: assigneeGroupOf_def)
  then have "\<forall>g\<in>set ags. \<forall>i\<in>set (AG_Issues g). AG_Name g = assigneeName i"
    by auto
  then show "\<forall>g\<in>set ags. \<forall>i\<in>set (AG_Issues g).
            AG_Name g = (case Issue_Assignee i of
                           None \<Rightarrow> ''Unassigned''
                         | Some u \<Rightarrow> if User_DisplayName u = [] then User_Name u
                                     else User_DisplayName u)"
    by (simp only: assigneeName_cases)
  show "distinct (map AG_Name ags)"
    using part(2) by (simp add: assigneeGroupOf_def)
qed

theorem grouping_partitions_witness:
  "groupByStatus [''Todo'', ''Backlog'', ''Triage'', ''In Progress''] statusSample
     [statusGroupOf statusSample ''In Progress'', statusGroupOf statusSample ''Todo'',
      statusGroupOf statusSample ''Backlog'', statusGroupOf statusSample ''Triage'']
   \<and> groupByAssignee [''Unassigned'', ''jane'', ''John''] assigneeSample
     [assigneeGroupOf assigneeSample ''jane'', assigneeGroupOf assigneeSample ''John'',
      assigneeGroupOf assigneeSample ''Unassigned'']
   \<and> sum_list (map (\<lambda>g. length (SG_Issues g))
     [statusGroupOf statusSample ''In Progress'', statusGroupOf statusSample ''Todo'',
      statusGroupOf statusSample ''Backlog'', statusGroupOf statusSample ''Triage'']) = length statusSample
   \<and> sum_list (map (\<lambda>g. length (AG_Issues g))
     [assigneeGroupOf assigneeSample ''jane'', assigneeGroupOf assigneeSample ''John'',
      assigneeGroupOf assigneeSample ''Unassigned'']) = length assigneeSample"
proof -
  let ?s = "[statusGroupOf statusSample ''In Progress'', statusGroupOf statusSample ''Todo'',
      statusGroupOf statusSample ''Backlog'', statusGroupOf statusSample ''Triage'']"
  let ?a = "[assigneeGroupOf assigneeSample ''jane'', assigneeGroupOf assigneeSample ''John'',
      assigneeGroupOf assigneeSample ''Unassigned'']"
  note r1 = statusSample_run
  note r2 = assigneeSample_run
  have p1: "groupByStatus [''Todo'', ''Backlog'', ''Triage'', ''In Progress''] statusSample ?s
      \<longrightarrow> sum_list (map (\<lambda>g. length (SG_Issues g)) ?s) = length statusSample"
    using grouping_partitions
      [of "[''Todo'', ''Backlog'', ''Triage'', ''In Progress'']" statusSample ?s "[]" ?a]
    by blast
  have p2: "groupByAssignee [''Unassigned'', ''jane'', ''John''] assigneeSample ?a
      \<longrightarrow> sum_list (map (\<lambda>g. length (AG_Issues g)) ?a) = length assigneeSample"
    using grouping_partitions
      [of "[]" assigneeSample "[]" "[''Unassigned'', ''jane'', ''John'']" ?a]
    by blast
  from r1 r2 p1 p2 show ?thesis by blast
qed

section \<open>No call of truncate panics\<close>

subsection \<open>The budgets of the program\<close>

lemma truncate_total:
  assumes "3 \<le> n" and "n < 2 ^ 63"
  shows "truncate s n = Inr (shortened s (nat n))"
proof (cases "int (length s) \<le> n")
  case True
  then have "length s \<le> nat n" by arith
  with True show ?thesis by (simp add: truncate_short shortened_def)
next
  case False
  then have long: "n < int (length s)" by simp
  then have "\<not> length s \<le> nat n" using assms(1) by arith
  moreover have "nat (n - 3) = nat n - 3" using assms(1) by arith
  ultimately show ?thesis
    using truncate_long [OF assms long] by (simp add: shortened_def)
qed

lemma truncate_40: "truncate s 40 = Inr (shortened s 40)"
  using truncate_total [of 40 s] by simp

lemma truncate_50: "truncate s 50 = Inr (shortened s 50)"
  using truncate_total [of 50 s] by simp

lemma truncate_300: "truncate s 300 = Inr (shortened s 300)"
  using truncate_total [of 300 s] by simp

lemma truncate_500: "truncate s 500 = Inr (shortened s 500)"
  using truncate_total [of 500 s] by simp

lemma thenP_Inr: "thenP (Inr x) f = f x"
  by (simp add: thenP_def)

subsection \<open>The loops that call truncate\<close>

lemma taskLinesLoop_eq:
  "taskLinesLoop i issues n acc =
     Inr (acc @ map taskLine (take (15 - i) issues)
          @ (if 15 - i < length issues then [''*... and '' @ showInt (int n - 15) @ '' more*''] else []))"
proof (induction issues arbitrary: i acc)
  case Nil
  then show ?case by simp
next
  case (Cons issue rest)
  show ?case
  proof (cases "15 \<le> i")
    case True
    then show ?thesis by simp
  next
    case False
    then have "15 - i = Suc (15 - Suc i)" by arith
    then show ?thesis
      using False Cons.IH [of "Suc i"] by (simp add: truncate_50 thenP_Inr taskLine_def)
  qed
qed

lemma userTaskLines_eq:
  "userTaskLines issues =
     Inr (map taskLine (take 15 issues)
          @ (if 15 < length issues
             then [''*... and '' @ showInt (int (length issues) - 15) @ '' more*''] else []))"
  by (simp add: userTaskLines_def taskLinesLoop_eq)

lemma priorityLoop_total: "\<exists>ls. priorityLoop issues cnt acc = Inr ls"
  by (induction issues arbitrary: cnt acc) (simp_all add: truncate_40 thenP_Inr)

lemma recentLoop_total: "\<exists>ls. recentLoop today issues acc = Inr ls"
  by (induction issues arbitrary: acc) (simp_all add: truncate_50 thenP_Inr)

lemma userEmbedsLoop_total: "\<exists>r. userEmbedsLoop rt gs embeds tr = Inr r"
proof (induction gs arbitrary: embeds tr)
  case Nil
  then show ?case by simp
next
  case (Cons g rest)
  show ?case
    using Cons.IH
    by (simp add: userTaskLines_eq thenP_Inr split: prod.splits option.splits)
qed

lemma sendUserTasks_total: "\<exists>r. sendUserTasks rt issues byAssignee tr = Inr r"
proof -
  obtain r where "userEmbedsLoop rt byAssignee [headerEmbed rt issues byAssignee] tr = Inr r"
    using userEmbedsLoop_total by blast
  then show ?thesis
    unfolding sendUserTasks_def
    by (simp add: thenP_Inr split: prod.splits option.splits)
qed

lemma sendReport_total: "\<exists>r. sendReport rt issues byStatus byAssignee tr = Inr r"
proof -
  obtain ps where ps: "priorityLoop issues 0 [] = Inr ps"
    using priorityLoop_total by blast
  obtain rs where rs: "recentLoop (startOfDay (timeNow rt)) issues [] = Inr rs"
    using recentLoop_total by blast
  show ?thesis
    unfolding sendReport_def Let_def
    by (simp add: ps rs thenP_Inr)
qed

subsection \<open>The transformers, the handlers and the reports\<close>

lemma transformIssueWebhook_total: "\<exists>r. transformIssueWebhook rt w = Inr r"
  unfolding transformIssueWebhook_def
  by (simp add: truncate_300 thenP_Inr split: sum.splits prod.splits)

lemma transformCommentWebhook_total: "\<exists>r. transformCommentWebhook rt w = Inr r"
  unfolding transformCommentWebhook_def
  by (simp add: truncate_500 thenP_Inr split: sum.splits prod.splits)

lemma transformProjectWebhook_total: "\<exists>r. transformProjectWebhook rt w = Inr r"
  unfolding transformProjectWebhook_def
  by (simp add: truncate_300 thenP_Inr split: sum.splits prod.splits)

lemma transformWebhookToDiscord_total: "\<exists>r. transformWebhookToDiscord rt w = Inr r"
  unfolding transformWebhookToDiscord_def
  using transformIssueWebhook_total transformCommentWebhook_total transformProjectWebhook_total
  by simp

lemma handleLinearWebhook_total: "\<exists>x. handleLinearWebhook rt req tr = Inr x"
proof -
  have "\<exists>r. thenP (transformWebhookToDiscord rt w) (\<lambda>res.
                 case res of
                   Inl err \<Rightarrow> Inr (httpError ''Error processing webhook'' 500, tr)
                 | Inr None \<Rightarrow>
                     Inr (\<lparr>Resp_Status = 200, Resp_ContentType = [], Resp_Body = []\<rparr>, tr)
                 | Inr (Some discordPayload) \<Rightarrow>
                     (case sendToDiscord rt discordPayload tr of
                        (Some err, tr') \<Rightarrow> Inr (httpError ''Error forwarding to Discord'' 500, tr')
                      | (None, tr') \<Rightarrow> Inr (jsonStatus ''forwarded'', tr'))) = Inr r" for w
  proof -
    obtain x where "transformWebhookToDiscord rt w = Inr x"
      using transformWebhookToDiscord_total by blast
    then show ?thesis
      by (simp add: thenP_Inr split: sum.splits option.splits prod.splits)
  qed
  then show ?thesis
    unfolding handleLinearWebhook_def
    by (simp split: sum.splits)
qed

lemma sendReport_no_panic: "sendReport rt issues byStatus byAssignee tr \<noteq> Inl p"
  using sendReport_total [of rt issues byStatus byAssignee tr] by auto

lemma sendUserTasks_no_panic: "sendUserTasks rt issues byAssignee tr \<noteq> Inl p"
  using sendUserTasks_total [of rt issues byAssignee tr] by auto

lemma generateAndSendReport_total:
  "generateAndSendReport rt byStatus byAssignee tr \<noteq> Some (Inl p)"
  unfolding generateAndSendReport_def
  by (simp add: sendReport_no_panic split: option.splits prod.splits sum.splits)

lemma generateUserTasksReport_total:
  "generateUserTasksReport rt byAssignee tr \<noteq> Some (Inl p)"
  unfolding generateUserTasksReport_def
  by (simp add: sendUserTasks_no_panic split: option.splits prod.splits sum.splits)

lemma handleReport_total: "handleReport rt byStatus byAssignee tr \<noteq> Some (Inl p)"
  unfolding handleReport_def
  by (simp add: generateAndSendReport_total split: option.splits prod.splits sum.splits)

lemma handleReportByUser_total: "handleReportByUser rt byAssignee tr \<noteq> Some (Inl p)"
  unfolding handleReportByUser_def
  by (simp add: generateUserTasksReport_total split: option.splits prod.splits sum.splits)

subsection \<open>Where truncate panics\<close>

lemma truncate_panics:
  assumes "int64 n" and "n < 3" and "n < int (length s)" and "int (length s) < 2 ^ 63 - 3"
  shows "truncate s n = Inl SliceBoundsOutOfRange"
proof (cases "- (2 ^ 63) + 3 \<le> n")
  case True
  then have "int64 (n - 3)" using assms(2) by (simp add: int64_def)
  then have "wrap64 (n - 3) = n - 3" by (rule wrap64_id)
  then show ?thesis using assms by (simp add: truncate_def)
next
  case False
  then have "n - 3 + 2 ^ 63 < 0" by simp
  moreover have "0 \<le> n - 3 + 2 ^ 63 + 2 ^ 64" using assms(1) by (simp add: int64_def)
  moreover have "n - 3 + 2 ^ 63 + 2 ^ 64 < 2 ^ 64" using False by simp
  ultimately have "(n - 3 + 2 ^ 63) mod 2 ^ 64 = n - 3 + 2 ^ 63 + 2 ^ 64"
    by (smt (verit) mod_add_self2 mod_pos_pos_trivial)
  then have w: "wrap64 (n - 3) = n - 3 + 2 ^ 64" by (simp add: wrap64_def)
  have "int (length s) < n - 3 + 2 ^ 64"
    using assms(1) assms(4) by (simp add: int64_def)
  then show ?thesis using assms(3) w by (simp add: truncate_def)
qed

lemma shortened_length:
  assumes "3 \<le> n"
  shows "length (shortened s n) = min (length s) n"
proof (cases "length s \<le> n")
  case True
  then show ?thesis by (simp add: shortened_def)
next
  case False
  then have "length (take (n - 3) s) = n - 3" by simp
  then show ?thesis using False assms by (simp add: shortened_def)
qed

text \<open>
  Claim C9. truncate is total only for budgets of at least 3. With a budget below 3 and a
  longer string the slice bound \<open>maxLen - 3\<close> is out of range and the call panics
  (for a budget within three of the least \<open>int\<close> the subtraction wraps around to a
  bound above \<open>2 ^ 63 - 4\<close>, which is out of range for every string that a machine can
  hold). With a budget of at least 3 the call returns a string of \<open>min(len(s), maxLen)\<close>
  bytes. The call sites pass the budgets 40, 50, 300 and 500, so that no transformer, no
  handler and no report of the program panics.
\<close>

theorem truncate_safety:
  "(int64 maxLen \<and> maxLen < 3 \<and> maxLen < int (length s) \<and> int (length s) < 2 ^ 63 - 3
      \<longrightarrow> truncate s maxLen = Inl SliceBoundsOutOfRange)
   \<and> (3 \<le> maxLen \<and> maxLen < 2 ^ 63
      \<longrightarrow> (\<exists>t. truncate s maxLen = Inr t \<and> int (length t) = min (int (length s)) maxLen))
   \<and> transformIssueWebhook rt w \<noteq> Inl p
   \<and> transformCommentWebhook rt w \<noteq> Inl p
   \<and> transformProjectWebhook rt w \<noteq> Inl p
   \<and> transformWebhookToDiscord rt w \<noteq> Inl p
   \<and> handleLinearWebhook rt req tr \<noteq> Inl p
   \<and> sendReport rt issues byStatus byAssignee tr \<noteq> Inl p
   \<and> sendUserTasks rt issues byAssignee tr \<noteq> Inl p
   \<and> generateAndSendReport rt groupS groupA tr \<noteq> Some (Inl p)
   \<and> generateUserTasksReport rt groupA tr \<noteq> Some (Inl p)
   \<and> handleReport rt groupS groupA tr \<noteq> Some (Inl p)
   \<and> handleReportByUser rt groupA tr \<noteq> Some (Inl p)"
proof (intro conjI impI)
  assume "int64 maxLen \<and> maxLen < 3 \<and> maxLen < int (length s) \<and> int (length s) < 2 ^ 63 - 3"
  then show "truncate s maxLen = Inl SliceBoundsOutOfRange"
    using truncate_panics by blast
next
  assume a: "3 \<le> maxLen \<and> maxLen < 2 ^ 63"
  then have "truncate s maxLen = Inr (shortened s (nat maxLen))"
    using truncate_total by blast
  moreover have "int (length (shortened s (nat maxLen))) = min (int (length s)) maxLen"
  proof -
    have "3 \<le> nat maxLen" using a by arith
    then have "length (shortened s (nat maxLen)) = min (length s) (nat maxLen)"
      by (rule shortened_length)
    then show ?thesis using a by arith
  qed
  ultimately show "\<exists>t. truncate s maxLen = Inr t \<and> int (length t) = min (int (length s)) maxLen"
    by blast
next
  show "transformIssueWebhook rt w \<noteq> Inl p"
    using transformIssueWebhook_total [of rt w] by auto
  show "transformCommentWebhook rt w \<noteq> Inl p"
    using transformCommentWebhook_total [of rt w] by auto
  show "transformProjectWebhook rt w \<noteq> Inl p"
    using transformProjectWebhook_total [of rt w] by auto
  show "transformWebhookToDiscord rt w \<noteq> Inl p"
    using transformWebhookToDiscord_total [of rt w] by auto
  show "handleLinearWebhook rt req tr \<noteq> Inl p"
    using handleLinearWebhook_total [of rt req tr] by auto
  show "sendReport rt issues byStatus byAssignee tr \<noteq> Inl p"
    by (rule sendReport_no_panic)
  show "sendUserTasks rt issues byAssignee tr \<noteq> Inl p"
    by (rule sendUserTasks_no_panic)
  show "generateAndSendReport rt groupS groupA tr \<noteq> Some (Inl p)"
    by (rule generateAndSendReport_total)
  show "generateUserTasksReport rt groupA tr \<noteq> Some (Inl p)"
    by (rule generateUserTasksReport_total)
  show "handleReport rt groupS groupA tr \<noteq> Some (Inl p)"
    by (rule handleReport_total)
  show "handleReportByUser rt groupA tr \<noteq> Some (Inl p)"
    by (rule handleReportByUser_total)
qed

theorem truncate_safety_witness:
  "int64 2 \<and> (2::int) < 3 \<and> 2 < int (length ''abcd'') \<and> int (length ''abcd'') < 2 ^ 63 - 3
   \<and> truncate ''abcd'' 2 = Inl SliceBoundsOutOfRange
   \<and> (3::int) \<le> 40 \<and> (40::int) < 2 ^ 63
   \<and> truncate ''Update the API documentation of the relay'' 40 = Inr ''Update the API documentation of the r...''
   \<and> int (length ''Update the API documentation of the r...'') = min (int (length ''Update the API documentation of the relay'')) 40"
proof -
  have h1: "int64 2 \<and> (2::int) < 3 \<and> 2 < int (length ''abcd'') \<and> int (length ''abcd'') < 2 ^ 63 - 3"
    by (simp add: int64_def)
  have h2: "(3::int) \<le> 40 \<and> (40::int) < 2 ^ 63" by simp
  have a: "truncate ''abcd'' 2 = Inl SliceBoundsOutOfRange"
    using truncate_safety [of 2 "''abcd''"] h1 by blast
  have "\<exists>t. truncate ''Update the API documentation of the relay'' 40 = Inr t
          \<and> int (length t) = min (int (length ''Update the API documentation of the relay'')) 40"
    using truncate_safety [of 40 "''Update the API documentation of the relay''"] h2 by blast
  then obtain t where t: "truncate ''Update the API documentation of the relay'' 40 = Inr t"
    and l: "int (length t) = min (int (length ''Update the API documentation of the relay'')) 40"
    by blast
  have "truncate ''Update the API documentation of the relay'' 40 = Inr ''Update the API documentation of the r...''"
    by (simp add: truncate_def wrap64_def)
  with t have "t = ''Update the API documentation of the r...''" by simp
  with h1 h2 a t l show ?thesis by simp
qed

section \<open>The lines of an assignee group\<close>

text \<open>
  Claim C6. A group of at most 15 issues gets one line for each issue and no overflow
  line. A longer group gets the lines of its first 15 issues and then one line, the text
  \<open>... and N more\<close> where \<open>N\<close> is the number of issues less 15; the program sets this
  line in Markdown emphasis, between two asterisks. A group of 23 issues gets 15 lines of
  issues and the line \<open>... and 8 more\<close>.
\<close>

theorem userTaskLines_overflow:
  "(length issues \<le> 15 \<longrightarrow> userTaskLines issues = Inr (map taskLine issues))
   \<and> (15 < length issues \<longrightarrow>
        userTaskLines issues =
          Inr (map taskLine (take 15 issues)
               @ [''*... and '' @ showInt (int (length issues) - 15) @ '' more*'']))"
  by (simp add: userTaskLines_eq)

lemma length_issues23: "length issues23 = 23"
  by (simp add: issues23_def)

lemma showInt_8: "showInt 8 = ''8''"
  by (simp add: showInt_def showNat.simps)

theorem userTaskLines_overflow_witness:
  "length issues23 = 23 \<and> 15 < length issues23
   \<and> userTaskLines issues23 = Inr (map taskLine (take 15 issues23) @ [''*... and 8 more*''])
   \<and> length (map taskLine (take 15 issues23)) = 15"
proof -
  have h: "15 < length issues23" by (simp add: length_issues23)
  have "userTaskLines issues23 =
          Inr (map taskLine (take 15 issues23)
               @ [''*... and '' @ showInt (int (length issues23) - 15) @ '' more*''])"
    using userTaskLines_overflow [of issues23] h by blast
  then show ?thesis using h by (simp add: length_issues23 showInt_8)
qed

section \<open>The webhook relay\<close>

subsection \<open>The colour of an embed\<close>

text \<open>
  Claim C4, as the code has it. When the data of the event decode, the payload holds one
  embed. For an Issue event its colour is ColorBlue (the brand colour) for the action
  \<open>create\<close>, ColorYellow for \<open>update\<close> and ColorRed for \<open>remove\<close>; for a Project event
  it is ColorGreen for \<open>create\<close>, ColorYellow for \<open>update\<close> and ColorRed for \<open>remove\<close>;
  for a Comment event it is ColorPurple whatever the action. The embed of a created issue
  is not green, as the run on a \<open>create\<close> event below shows.
\<close>

theorem webhook_embed_colors:
  "(WH_Type w = ''Issue'' \<and> jsonIssue rt (WH_Data w) = Inr issue \<longrightarrow>
      (WH_Action w = ''create'' \<longrightarrow>
         map Embed_Color (payloadEmbeds (transformWebhookToDiscord rt w)) = [ColorBlue])
      \<and> (WH_Action w = ''update'' \<longrightarrow>
         map Embed_Color (payloadEmbeds (transformWebhookToDiscord rt w)) = [ColorYellow])
      \<and> (WH_Action w = ''remove'' \<longrightarrow>
         map Embed_Color (payloadEmbeds (transformWebhookToDiscord rt w)) = [ColorRed]))
   \<and> (WH_Type w = ''Project'' \<and> jsonProject rt (WH_Data w) = Inr project \<longrightarrow>
      (WH_Action w = ''create'' \<longrightarrow>
         map Embed_Color (payloadEmbeds (transformWebhookToDiscord rt w)) = [ColorGreen])
      \<and> (WH_Action w = ''update'' \<longrightarrow>
         map Embed_Color (payloadEmbeds (transformWebhookToDiscord rt w)) = [ColorYellow])
      \<and> (WH_Action w = ''remove'' \<longrightarrow>
         map Embed_Color (payloadEmbeds (transformWebhookToDiscord rt w)) = [ColorRed]))
   \<and> (WH_Type w = ''Comment'' \<and> jsonComment rt (WH_Data w) = Inr comment \<longrightarrow>
         map Embed_Color (payloadEmbeds (transformWebhookToDiscord rt w)) = [ColorPurple])"
proof (intro conjI impI)
  assume "WH_Type w = ''Issue'' \<and> jsonIssue rt (WH_Data w) = Inr issue"
    and "WH_Action w = ''create''"
  then show "map Embed_Color (payloadEmbeds (transformWebhookToDiscord rt w)) = [ColorBlue]"
    by (simp add: transformWebhookToDiscord_def transformIssueWebhook_def issueStyle_def
        truncate_300 thenP_def payloadEmbeds_def linearPayload_def)
next
  assume "WH_Type w = ''Issue'' \<and> jsonIssue rt (WH_Data w) = Inr issue"
    and "WH_Action w = ''update''"
  then show "map Embed_Color (payloadEmbeds (transformWebhookToDiscord rt w)) = [ColorYellow]"
    by (simp add: transformWebhookToDiscord_def transformIssueWebhook_def issueStyle_def
        truncate_300 thenP_def payloadEmbeds_def linearPayload_def)
next
  assume "WH_Type w = ''Issue'' \<and> jsonIssue rt (WH_Data w) = Inr issue"
    and "WH_Action w = ''remove''"
  then show "map Embed_Color (payloadEmbeds (transformWebhookToDiscord rt w)) = [ColorRed]"
    by (simp add: transformWebhookToDiscord_def transformIssueWebhook_def issueStyle_def
        truncate_300 thenP_def payloadEmbeds_def linearPayload_def)
next
  assume "WH_Type w = ''Project'' \<and> jsonProject rt (WH_Data w) = Inr project"
    and "WH_Action w = ''create''"
  then show "map Embed_Color (payloadEmbeds (transformWebhookToDiscord rt w)) = [ColorGreen]"
    by (simp add: transformWebhookToDiscord_def transformProjectWebhook_def projectStyle_def
        truncate_300 thenP_def payloadEmbeds_def linearPayload_def)
next
  assume "WH_Type w = ''Project'' \<and> jsonProject rt (WH_Data w) = Inr project"
    and "WH_Action w = ''update''"
  then show "map Embed_Color (payloadEmbeds (transformWebhookToDiscord rt w)) = [ColorYellow]"
    by (simp add: transformWebhookToDiscord_def transformProjectWebhook_def projectStyle_def
        truncate_300 thenP_def payloadEmbeds_def linearPayload_def)
next
  assume "WH_Type w = ''Project'' \<and> jsonProject rt (WH_Data w) = Inr project"
    and "WH_Action w = ''remove''"
  then show "map Embed_Color (payloadEmbeds (transformWebhookToDiscord rt w)) = [ColorRed]"
    by (simp add: transformWebhookToDiscord_def transformProjectWebhook_def projectStyle_def
        truncate_300 thenP_def payloadEmbeds_def linearPayload_def)
next
  assume "WH_Type w = ''Comment'' \<and> jsonComment rt (WH_Data w) = Inr comment"
  then show "map Embed_Color (payloadEmbeds (transformWebhookToDiscord rt w)) = [ColorPurple]"
    by (simp add: transformWebhookToDiscord_def transformCommentWebhook_def truncate_500
        thenP_def payloadEmbeds_def linearPayload_def split: prod.splits)
qed

theorem webhook_embed_colors_witness:
  "WH_Type (sampleEvent ''Issue'' ''create'') = ''Issue''
   \<and> WH_Action (sampleEvent ''Issue'' ''create'') = ''create''
   \<and> map Embed_Color (payloadEmbeds
        (transformWebhookToDiscord sampleRuntime (sampleEvent ''Issue'' ''create''))) = [ColorBlue]
   \<and> map Embed_Color (payloadEmbeds
        (transformWebhookToDiscord sampleRuntime (sampleEvent ''Project'' ''create''))) = [ColorGreen]
   \<and> map Embed_Color (payloadEmbeds
        (transformWebhookToDiscord sampleRuntime (sampleEvent ''Comment'' ''remove''))) = [ColorPurple]"
proof -
  have i: "WH_Type (sampleEvent ''Issue'' ''create'') = ''Issue''
      \<and> jsonIssue sampleRuntime (WH_Data (sampleEvent ''Issue'' ''create'')) =
          Inr \<lparr>WI_ID = ''1'', WI_Identifier = ''TEST-1'', WI_Title = ''Test Issue'',
         WI_Description = [], WI_Priority = 2, WI_PriorityLabel = ''High'', WI_State = None,
         WI_Assignee = None, WI_Team = None, WI_Labels = [],
         WI_URL = ''https://linear.app/test''\<rparr>"
    and ia: "WH_Action (sampleEvent ''Issue'' ''create'') = ''create''"
    by (simp_all add: sampleEvent_def sampleRuntime_def)
  have p: "WH_Type (sampleEvent ''Project'' ''create'') = ''Project''
      \<and> jsonProject sampleRuntime (WH_Data (sampleEvent ''Project'' ''create'')) =
          Inr \<lparr>WP_ID = ''3'', WP_Name = ''Relay'', WP_Description = [], WP_State = ''started'',
         WP_URL = ''https://linear.app/project''\<rparr>"
    and pa: "WH_Action (sampleEvent ''Project'' ''create'') = ''create''"
    by (simp_all add: sampleEvent_def sampleRuntime_def)
  have c: "WH_Type (sampleEvent ''Comment'' ''remove'') = ''Comment''
      \<and> jsonComment sampleRuntime (WH_Data (sampleEvent ''Comment'' ''remove'')) =
          Inr \<lparr>WC_ID = ''2'', WC_Body = ''Looks good'', WC_Issue = None, WC_User = None,
         WC_CreatedAt = [], WC_URL = ''https://linear.app/test#comment''\<rparr>"
    by (simp add: sampleEvent_def sampleRuntime_def)
  have 1: "map Embed_Color (payloadEmbeds
        (transformWebhookToDiscord sampleRuntime (sampleEvent ''Issue'' ''create''))) = [ColorBlue]"
    using webhook_embed_colors [of "sampleEvent ''Issue'' ''create''" sampleRuntime] i ia by blast
  have 2: "map Embed_Color (payloadEmbeds
        (transformWebhookToDiscord sampleRuntime (sampleEvent ''Project'' ''create''))) = [ColorGreen]"
    using webhook_embed_colors [of "sampleEvent ''Project'' ''create''" sampleRuntime] p pa by blast
  have 3: "map Embed_Color (payloadEmbeds
        (transformWebhookToDiscord sampleRuntime (sampleEvent ''Comment'' ''remove''))) = [ColorPurple]"
    using webhook_embed_colors [of "sampleEvent ''Comment'' ''remove''" sampleRuntime] c by blast
  from i ia 1 2 3 show ?thesis by blast
qed

theorem issue_create_color_counterexample:
  "WH_Type (sampleEvent ''Issue'' ''create'') = ''Issue''
   \<and> WH_Action (sampleEvent ''Issue'' ''create'') = ''create''
   \<and> map Embed_Color (payloadEmbeds
        (transformWebhookToDiscord sampleRuntime (sampleEvent ''Issue'' ''create''))) = [ColorBlue]
   \<and> ColorBlue \<noteq> ColorGreen"
  by (simp add: sampleEvent_def sampleRuntime_def transformWebhookToDiscord_def
      transformIssueWebhook_def issueStyle_def truncate_def thenP_def payloadEmbeds_def
      linearPayload_def ColorBlue_def ColorGreen_def)

subsection \<open>Events of another type\<close>

text \<open>
  Claim C5. For an event whose type is none of \<open>Issue\<close>, \<open>Comment\<close> and \<open>Project\<close> the
  transformer returns no payload and no error, and the handler of a POST request whose
  body decodes to that event answers with status 200 and leaves the events of the run as
  they were: nothing is sent to Discord.
\<close>

theorem unknown_type_dropped:
  assumes "WH_Type w \<noteq> ''Issue''" and "WH_Type w \<noteq> ''Comment''" and "WH_Type w \<noteq> ''Project''"
  shows "transformWebhookToDiscord rt w = Inr (Inr None)
       \<and> (Req_Method req = ''POST'' \<and> Req_Body req = Inr body \<and> jsonWebhook rt body = Inr w
            \<longrightarrow> handleLinearWebhook rt req tr =
                  Inr (\<lparr>Resp_Status = 200, Resp_ContentType = [], Resp_Body = []\<rparr>, tr))"
  using assms
  by (simp add: transformWebhookToDiscord_def handleLinearWebhook_def thenP_def)

theorem unknown_type_dropped_witness:
  "WH_Type (sampleEvent ''Cycle'' ''create'') \<noteq> ''Issue''
   \<and> WH_Type (sampleEvent ''Cycle'' ''create'') \<noteq> ''Comment''
   \<and> WH_Type (sampleEvent ''Cycle'' ''create'') \<noteq> ''Project''
   \<and> jsonWebhook sampleRuntime ''Cycle'' = Inr (sampleEvent ''Cycle'' ''create'')
   \<and> transformWebhookToDiscord sampleRuntime (sampleEvent ''Cycle'' ''create'') = Inr (Inr None)
   \<and> handleLinearWebhook sampleRuntime \<lparr>Req_Method = ''POST'', Req_Body = Inr ''Cycle''\<rparr> []
       = Inr (\<lparr>Resp_Status = 200, Resp_ContentType = [], Resp_Body = []\<rparr>, [])"
proof -
  have h: "WH_Type (sampleEvent ''Cycle'' ''create'') \<noteq> ''Issue''"
    "WH_Type (sampleEvent ''Cycle'' ''create'') \<noteq> ''Comment''"
    "WH_Type (sampleEvent ''Cycle'' ''create'') \<noteq> ''Project''"
    by (simp_all add: sampleEvent_def)
  have d: "jsonWebhook sampleRuntime ''Cycle'' = Inr (sampleEvent ''Cycle'' ''create'')"
    by (simp add: sampleRuntime_def)
  note t = unknown_type_dropped [OF h, of sampleRuntime
      "\<lparr>Req_Method = ''POST'', Req_Body = Inr ''Cycle''\<rparr>" "''Cycle''" "[]"]
  from t d h show ?thesis by simp
qed

section \<open>The batches of the report by user\<close>

lemma sendToDiscord_accepted:
  assumes "discordAccepts rt"
  shows "sendToDiscord rt payload tr = (None, tr @ [Posted payload])"
proof -
  obtain status body where
    "discordPost rt tr payload = DiscordReplied status body" "200 \<le> status" "status < 300"
    using assms unfolding discordAccepts_def by blast
  then show ?thesis by (simp add: sendToDiscord_def)
qed

lemma userEmbedsLoop_step:
  "userEmbedsLoop rt (g # rest) embeds tr =
     (if 10 \<le> Suc (length embeds)
      then (case sendToDiscord rt (taskReportPayload (embeds @ [groupEmbed g])) tr of
              (Some err, tr') \<Rightarrow> Inr (Some err, [], tr')
            | (None, tr') \<Rightarrow> userEmbedsLoop rt rest [] (tr' @ [Slept 500]))
      else userEmbedsLoop rt rest (embeds @ [groupEmbed g]) tr)"
  by (simp add: userTaskLines_eq thenP_Inr groupEmbed_def valueOr_def)

lemma userEmbedsLoop_fill:
  "length embeds + length gs < 10 \<Longrightarrow>
   userEmbedsLoop rt gs embeds tr = Inr (None, embeds @ map groupEmbed gs, tr)"
proof (induction gs arbitrary: embeds)
  case Nil
  then show ?case by simp
next
  case (Cons g gs)
  then have "length (embeds @ [groupEmbed g]) + length gs < 10" by simp
  then have "userEmbedsLoop rt gs (embeds @ [groupEmbed g]) tr =
      Inr (None, (embeds @ [groupEmbed g]) @ map groupEmbed gs, tr)"
    by (rule Cons.IH)
  moreover have "\<not> 10 \<le> Suc (length embeds)" using Cons.prems by simp
  ultimately show ?case by (simp add: userEmbedsLoop_step del: userEmbedsLoop.simps)
qed

lemma userEmbedsLoop_flush:
  assumes "discordAccepts rt"
  shows "gs \<noteq> [] \<Longrightarrow> length embeds + length gs = 10 \<Longrightarrow>
   userEmbedsLoop rt (gs @ rest) embeds tr =
     userEmbedsLoop rt rest []
       (tr @ [Posted (taskReportPayload (embeds @ map groupEmbed gs)), Slept 500])"
proof (induction gs arbitrary: embeds)
  case Nil
  then show ?case by simp
next
  case (Cons g gs)
  show ?case
  proof (cases "gs = []")
    case True
    then have "10 \<le> Suc (length embeds)" using Cons.prems by simp
    then show ?thesis
      using True
      by (simp add: userEmbedsLoop_step sendToDiscord_accepted [OF assms]
          del: userEmbedsLoop.simps)
  next
    case False
    have "length (embeds @ [groupEmbed g]) + length gs = 10" using Cons.prems by simp
    then have "userEmbedsLoop rt (gs @ rest) (embeds @ [groupEmbed g]) tr =
        userEmbedsLoop rt rest []
          (tr @ [Posted (taskReportPayload ((embeds @ [groupEmbed g]) @ map groupEmbed gs)),
                 Slept 500])"
      using False by (rule Cons.IH [rotated])
    moreover have "\<not> 10 \<le> Suc (length embeds)" using Cons.prems False by (cases gs) simp_all
    ultimately show ?thesis by (simp add: userEmbedsLoop_step del: userEmbedsLoop.simps)
  qed
qed

text \<open>
  Claim C7. With 24 assignee groups and a Discord that accepts every delivery, the report
  by user makes three deliveries and no more: the header embed with the embeds of the
  first 9 groups, the embeds of the next 10 groups, and the embeds of the last 5 groups,
  so 10, 10 and 5 embeds. A batch is sent as soon as it holds 10 embeds, and a sleep of
  500 milliseconds follows each of these two sends, before the next delivery.
\<close>

theorem user_report_batches:
  assumes len: "length byAssignee = 24" and acc: "discordAccepts rt"
  shows "sendUserTasks rt issues byAssignee tr =
           Inr (None, tr @
             [Posted (taskReportPayload
                (headerEmbed rt issues byAssignee # map groupEmbed (take 9 byAssignee))),
              Slept 500,
              Posted (taskReportPayload (map groupEmbed (take 10 (drop 9 byAssignee)))),
              Slept 500,
              Posted (taskReportPayload (map groupEmbed (drop 19 byAssignee)))])
       \<and> eventSummary
            [Posted (taskReportPayload
                (headerEmbed rt issues byAssignee # map groupEmbed (take 9 byAssignee))),
              Slept 500,
              Posted (taskReportPayload (map groupEmbed (take 10 (drop 9 byAssignee)))),
              Slept 500,
              Posted (taskReportPayload (map groupEmbed (drop 19 byAssignee)))]
           = [Delivered 10, Delay 500, Delivered 10, Delay 500, Delivered 5]"
proof
  let ?h = "headerEmbed rt issues byAssignee"
  let ?a = "take 9 byAssignee"
  let ?b = "take 10 (drop 9 byAssignee)"
  let ?c = "drop 19 byAssignee"
  let ?p1 = "Posted (taskReportPayload (?h # map groupEmbed ?a))"
  let ?p2 = "Posted (taskReportPayload (map groupEmbed ?b))"
  let ?p3 = "Posted (taskReportPayload (map groupEmbed ?c))"
  have la: "length ?a = 9" and lb: "length ?b = 10" and lc: "length ?c = 5"
    using len by simp_all
  have split: "byAssignee = ?a @ (?b @ ?c)"
  proof -
    have "?b @ ?c = drop 9 byAssignee"
      using append_take_drop_id [of 10 "drop 9 byAssignee"] by simp
    then have "?a @ (?b @ ?c) = take 9 byAssignee @ drop 9 byAssignee" by simp
    then show ?thesis by simp
  qed
  have s1: "userEmbedsLoop rt (?a @ (?b @ ?c)) [?h] tr =
        userEmbedsLoop rt (?b @ ?c) [] (tr @ [?p1, Slept 500])"
  proof -
    have "?a \<noteq> []" using la by auto
    moreover have "length [?h] + length ?a = 10" using la by simp
    ultimately show ?thesis
      using userEmbedsLoop_flush [OF acc, of ?a "[?h]" "?b @ ?c" tr] by simp
  qed
  have s2: "userEmbedsLoop rt (?b @ ?c) [] (tr @ [?p1, Slept 500]) =
        userEmbedsLoop rt ?c [] ((tr @ [?p1, Slept 500]) @ [?p2, Slept 500])"
  proof -
    have "?b \<noteq> []" using lb by auto
    moreover have "length ([]::DiscordEmbed list) + length ?b = 10" using lb by simp
    ultimately show ?thesis
      using userEmbedsLoop_flush [OF acc, of ?b "[]" ?c "tr @ [?p1, Slept 500]"] by simp
  qed
  have s3: "userEmbedsLoop rt ?c [] ((tr @ [?p1, Slept 500]) @ [?p2, Slept 500]) =
        Inr (None, map groupEmbed ?c, (tr @ [?p1, Slept 500]) @ [?p2, Slept 500])"
  proof -
    have "length ([]::DiscordEmbed list) + length ?c < 10" using lc by simp
    then show ?thesis
      using userEmbedsLoop_fill [of "[]" ?c rt "(tr @ [?p1, Slept 500]) @ [?p2, Slept 500]"]
      by simp
  qed
  have loop: "userEmbedsLoop rt byAssignee [?h] tr =
        Inr (None, map groupEmbed ?c, (tr @ [?p1, Slept 500]) @ [?p2, Slept 500])"
    using s1 s2 s3 split by metis
  have "map groupEmbed ?c \<noteq> []" using lc by auto
  then show "sendUserTasks rt issues byAssignee tr =
           Inr (None, tr @ [?p1, Slept 500, ?p2, Slept 500, ?p3])"
    unfolding sendUserTasks_def
    by (simp add: loop thenP_Inr sendToDiscord_accepted [OF acc])
  show "eventSummary [?p1, Slept 500, ?p2, Slept 500, ?p3]
           = [Delivered 10, Delay 500, Delivered 10, Delay 500, Delivered 5]"
    using la lb lc by (simp add: eventSummary_def taskReportPayload_def)
qed

lemma discordAccepts_sample: "discordAccepts sampleRuntime"
  by (simp add: discordAccepts_def sampleRuntime_def)

theorem user_report_batches_witness:
  "length groups24 = 24 \<and> discordAccepts sampleRuntime
   \<and> eventSummary (snd (valueOr (None, []) (sendUserTasks sampleRuntime issues23 groups24 [])))
       = [Delivered 10, Delay 500, Delivered 10, Delay 500, Delivered 5]"
proof -
  have l: "length groups24 = 24" by (simp add: groups24_def)
  have a: "discordAccepts sampleRuntime" by (simp add: discordAccepts_def sampleRuntime_def)
  note t = user_report_batches [OF l a, of issues23 "[]"]
  from t l a show ?thesis by (simp add: valueOr_def)
qed

section \<open>Pagination of the open issues\<close>

lemma executeGraphQL_Inr:
  assumes "executeGraphQL rt query variables tr = (Inr resp, tr')"
  shows "tr' = tr @ [Requested \<lparr>Query = query, Variables = variables\<rparr>]"
  using assms
  by (auto simp: executeGraphQL_def split: linearOutcome.splits if_splits sum.splits)

lemma pageReply_Some:
  assumes "pageReply rt tr cursor = Some page"
  shows "\<exists>resp. executeGraphQL rt issuesQuery (cursorVariables cursor) tr =
                  (Inr resp, tr @ [Requested (issuesRequest cursor)])
               \<and> jsonIssues rt resp = Inr page"
proof -
  obtain r tr' where e: "executeGraphQL rt issuesQuery (cursorVariables cursor) tr = (r, tr')"
    by (cases "executeGraphQL rt issuesQuery (cursorVariables cursor) tr")
  with assms obtain resp where r: "r = Inr resp" and j: "jsonIssues rt resp = Inr page"
    by (auto simp: pageReply_def split: sum.splits)
  have "tr' = tr @ [Requested (issuesRequest cursor)]"
    using executeGraphQL_Inr e r by (simp add: issuesRequest_def)
  with e r j show ?thesis by simp
qed

lemma fetchLoop_last:
  assumes "pageReply rt tr cursor = Some page" and "\<not> HasNextPage (PageInfo page)"
  shows "fetchLoop rt cursor allIssues tr =
           Some (Inr (allIssues @ Nodes page), tr @ [Requested (issuesRequest cursor)])"
proof -
  obtain resp where
    "executeGraphQL rt issuesQuery (cursorVariables cursor) tr =
       (Inr resp, tr @ [Requested (issuesRequest cursor)])"
    "jsonIssues rt resp = Inr page"
    using pageReply_Some [OF assms(1)] by blast
  then show ?thesis
    using assms(2) by (subst fetchLoop.simps) simp
qed

lemma fetchLoop_next:
  assumes "pageReply rt tr cursor = Some page" and "HasNextPage (PageInfo page)"
  shows "fetchLoop rt cursor allIssues tr =
           fetchLoop rt (EndCursor (PageInfo page)) (allIssues @ Nodes page)
             (tr @ [Requested (issuesRequest cursor)])"
proof -
  obtain resp where
    "executeGraphQL rt issuesQuery (cursorVariables cursor) tr =
       (Inr resp, tr @ [Requested (issuesRequest cursor)])"
    "jsonIssues rt resp = Inr page"
    using pageReply_Some [OF assms(1)] by blast
  then show ?thesis
    using assms(2) by (subst fetchLoop.simps) simp
qed

lemma fetchLoop_served:
  "served rt tr cursor pages \<Longrightarrow>
   fetchLoop rt cursor allIssues tr =
     Some (Inr (allIssues @ concat (map Nodes pages)), tr @ requestsFor cursor pages)"
proof (induction rt tr cursor pages arbitrary: allIssues rule: served.induct)
  case (1 rt tr cursor)
  then show ?case by simp
next
  case (2 rt tr cursor page)
  then show ?case by (simp add: fetchLoop_last)
next
  case (3 rt tr cursor page nxt rest)
  then have p: "pageReply rt tr cursor = Some page" and h: "HasNextPage (PageInfo page)"
    and s: "served rt (tr @ [Requested (issuesRequest cursor)]) (EndCursor (PageInfo page))
              (nxt # rest)"
    by simp_all
  have "fetchLoop rt (EndCursor (PageInfo page)) (allIssues @ Nodes page)
          (tr @ [Requested (issuesRequest cursor)]) =
        Some (Inr ((allIssues @ Nodes page) @ concat (map Nodes (nxt # rest))),
              (tr @ [Requested (issuesRequest cursor)])
              @ requestsFor (EndCursor (PageInfo page)) (nxt # rest))"
    using s by (rule "3.IH")
  then show ?case
    by (simp add: fetchLoop_next [OF p h])
qed

lemma fetchLoop_endless:
  assumes "endless rt"
  shows "fetchLoop rt cursor allIssues tr = None"
proof (cases "fetchLoop rt cursor allIssues tr")
  case None
  then show ?thesis .
next
  case (Some y)
  have "\<not> endless rt"
  proof (rule fetchLoop.raw_induct
      [where P = "\<lambda>rt cursor allIssues tr y. \<not> endless rt", OF _ Some], goal_cases)
    case (1 f rt cursor allIssues tr y)
    show ?case
    proof
      assume e: "endless rt"
      then obtain page where p: "pageReply rt tr cursor = Some page"
        and h: "HasNextPage (PageInfo page)"
        unfolding endless_def by blast
      obtain resp where
        "executeGraphQL rt issuesQuery (cursorVariables cursor) tr =
           (Inr resp, tr @ [Requested (issuesRequest cursor)])"
        "jsonIssues rt resp = Inr page"
        using pageReply_Some [OF p] by blast
      then have "f rt (EndCursor (PageInfo page)) (allIssues @ Nodes page)
                   (tr @ [Requested (issuesRequest cursor)]) = Some y"
        using "1"(2) h by simp
      then have "\<not> endless rt" by (rule "1"(1))
      then show False using e by simp
    qed
  qed
  then show ?thesis using assms by simp
qed

text \<open>
  Claim C8. When Linear serves the pages \<open>pages\<close>, of which the last is the first without
  \<open>hasNextPage\<close>, fetchAllOpenIssues returns, and it returns the nodes of these pages
  in order; its requests are those of \<open>requestsFor\<close>: the first without a cursor, each
  later one with the end cursor of the page before it (an empty end cursor is sent as no
  cursor, as \<open>cursorVariables\<close> has it). The loop has no bound: when every page has
  \<open>hasNextPage\<close> the call never returns, which is the value \<open>None\<close>.
\<close>

theorem fetchAllOpenIssues_pages:
  "(served rt tr [] pages \<longrightarrow>
      fetchAllOpenIssues rt tr =
        Some (Inr (concat (map Nodes pages)), tr @ requestsFor [] pages))
   \<and> (endless rt \<longrightarrow> fetchAllOpenIssues rt tr = None)
   \<and> cursorVariables [] = []
   \<and> (cursor \<noteq> [] \<longrightarrow> cursorVariables cursor = [(''cursor'', cursor)])"
  using fetchLoop_served [of rt tr "[]" pages "[]"] fetchLoop_endless [of rt "[]" "[]" tr]
  by (simp add: fetchAllOpenIssues_def cursorVariables_def)

lemma samplePage_info:
  "HasNextPage (PageInfo (samplePage ''1''))"
  "EndCursor (PageInfo (samplePage ''1'')) = ''c1''"
  "\<not> HasNextPage (PageInfo (samplePage ''2''))"
  by (simp_all add: samplePage_def)

lemma pageReply_sample:
  "pageReply sampleRuntime tr cursor = Some (samplePage (if cursor = [] then ''1'' else ''2''))"
  by (simp add: pageReply_def executeGraphQL_def sampleRuntime_def cursorVariables_def)

lemma pageReply_endless: "pageReply endlessRuntime tr cursor = Some (samplePage ''1'')"
  by (simp add: pageReply_def executeGraphQL_def endlessRuntime_def sampleRuntime_def)

theorem fetchAllOpenIssues_pages_witness:
  "served sampleRuntime [] [] [samplePage ''1'', samplePage ''2'']
   \<and> fetchAllOpenIssues sampleRuntime [] =
       Some (Inr (Nodes (samplePage ''1'') @ Nodes (samplePage ''2'')),
             [Requested (issuesRequest []), Requested (issuesRequest ''c1'')])
   \<and> endless endlessRuntime
   \<and> fetchAllOpenIssues endlessRuntime [] = None
   \<and> cursorVariables ''c1'' = [(''cursor'', ''c1'')]"
proof -
  have s: "served sampleRuntime [] [] [samplePage ''1'', samplePage ''2'']"
    by (simp add: pageReply_sample samplePage_info)
  have e: "endless endlessRuntime"
    by (simp add: endless_def pageReply_endless samplePage_info)
  have c: "''c1'' \<noteq> []" by simp
  have 1: "fetchAllOpenIssues sampleRuntime [] =
        Some (Inr (concat (map Nodes [samplePage ''1'', samplePage ''2''])),
              [] @ requestsFor [] [samplePage ''1'', samplePage ''2''])"
    using fetchAllOpenIssues_pages [of sampleRuntime "[]" "[samplePage ''1'', samplePage ''2'']"] s
    by blast
  have 2: "fetchAllOpenIssues endlessRuntime [] = None"
    using fetchAllOpenIssues_pages [of endlessRuntime "[]"] e by blast
  have 3: "cursorVariables ''c1'' = [(''cursor'', ''c1'')]"
    using fetchAllOpenIssues_pages [of sampleRuntime "[]" "[]" "''c1''"] c by blast
  from 1 have "fetchAllOpenIssues sampleRuntime [] =
       Some (Inr (Nodes (samplePage ''1'') @ Nodes (samplePage ''2'')),
             [Requested (issuesRequest []), Requested (issuesRequest ''c1'')])"
    by (simp add: samplePage_info)
  with s e 2 3 show ?thesis by blast
qed

end
